theory Spec2Isabelle
  imports Complex_Main "HOL-Library.Word" "HOL-Library.List_Lexorder" "HOL-Library.Char_ord"
begin

section \<open>Shared data: log records, bounded queues, the durable store\<close>

type_synonym byte = "8 word"
type_synonym bytes = "byte list"

datatype level = DEBUG | INFO | WARNING | ERROR | CRITICAL

type_synonym log_record = "level \<times> string"

datatype py_exception =
  Struct_error | Value_error | Sqlite3_error | Attribute_error | Runtime_error | IO_error

text \<open>
  \<open>queue.Queue(maxsize=n)\<close>: a FIFO with a capacity; \<open>maxsize = 0\<close> is Python's
  unbounded queue. \<open>put_q\<close> is \<open>put(x, block=False)\<close> and also \<open>put(x, timeout=t)\<close>
  on a queue that stays full for the whole timeout: \<open>None\<close> is \<open>queue.Full\<close>.
\<close>

record 'a queue =
  items :: "'a list"
  maxsize :: nat

definition q_empty :: "'a queue \<Rightarrow> bool" where
  "q_empty q = (items q = [])"

definition q_full :: "'a queue \<Rightarrow> bool" where
  "q_full q = (0 < maxsize q \<and> maxsize q \<le> length (items q))"

definition put_q :: "'a \<Rightarrow> 'a queue \<Rightarrow> 'a queue option" where
  "put_q x q = (if q_full q then None else Some (q\<lparr>items := items q @ [x]\<rparr>))"

definition get_nowait :: "'a queue \<Rightarrow> ('a \<times> 'a queue) option" where
  "get_nowait q = (case items q of [] \<Rightarrow> None | x # xs \<Rightarrow> Some (x, q\<lparr>items := xs\<rparr>))"

text \<open>
  The tables of \<open>db_setup.py\<close>. \<open>fatigue_seq\<close> and \<open>environment_seq\<close> are the
  AUTOINCREMENT counters (the largest row id ever given out). Timestamps are TEXT and
  are compared as SQLite compares TEXT: byte-wise, a proper prefix first, which is the
  order of \<open>string\<close> here.
\<close>

record fatigue_row =
  log_id :: nat
  timestamp :: string
  node_id :: int
  bin_1_cycles :: int
  bin_2_cycles :: int
  bin_3_cycles :: int
  sent_to_cloud :: int

record environment_row =
  env_log_id :: nat
  received_at :: string
  env_node_id :: int
  temperature_c :: real
  humidity_rh :: real

record store =
  fatigue_log :: "fatigue_row list"
  fatigue_seq :: nat
  environment_log :: "environment_row list"
  environment_seq :: nat

section \<open>\<open>struct.unpack\<close> with a little-endian format\<close>

text \<open>
  A format string that starts with \<open><\<close> is little-endian with standard sizes and no
  padding; blanks between the codes are ignored. \<open>struct.unpack\<close> raises
  \<open>struct.error\<close> unless the buffer has exactly \<open>calcsize\<close> bytes. A decoded
  \<open>f\<close> is kept as its 32 bits: no bit pattern makes the decoding fail.
\<close>

datatype fmt = Fmt_B | Fmt_H | Fmt_h | Fmt_I | Fmt_f

datatype pyvalue = V_int int | V_float "32 word"

fun size_of :: "fmt \<Rightarrow> nat" where
  "size_of Fmt_B = 1"
| "size_of Fmt_H = 2"
| "size_of Fmt_h = 2"
| "size_of Fmt_I = 4"
| "size_of Fmt_f = 4"

definition calcsize :: "fmt list \<Rightarrow> nat" where
  "calcsize fs = sum_list (map size_of fs)"

fun le_uint :: "bytes \<Rightarrow> int" where
  "le_uint [] = 0"
| "le_uint (b # bs) = uint b + 256 * le_uint bs"

fun decode_field :: "fmt \<Rightarrow> bytes \<Rightarrow> pyvalue" where
  "decode_field Fmt_h bs = V_int (sint (word_of_int (le_uint bs) :: 16 word))"
| "decode_field Fmt_f bs = V_float (word_of_int (le_uint bs))"
| "decode_field f bs = V_int (le_uint bs)"

fun unpack_fields :: "fmt list \<Rightarrow> bytes \<Rightarrow> pyvalue list" where
  "unpack_fields [] bs = []"
| "unpack_fields (f # fs) bs =
     decode_field f (take (size_of f) bs) # unpack_fields fs (drop (size_of f) bs)"

definition struct_unpack :: "fmt list \<Rightarrow> bytes \<Rightarrow> py_exception + pyvalue list" where
  "struct_unpack fs buf =
     (if length buf \<noteq> calcsize fs then Inl Struct_error else Inr (unpack_fields fs buf))"

text \<open>The two formats of \<open>processing_thread.py\<close>: \<open>'<H B III f f B'\<close> and \<open>'<BhH'\<close>.\<close>

definition lora_format :: "fmt list" where
  "lora_format = [Fmt_H, Fmt_B, Fmt_I, Fmt_I, Fmt_I, Fmt_f, Fmt_f, Fmt_B]"

definition nrf_format :: "fmt list" where
  "nrf_format = [Fmt_B, Fmt_h, Fmt_H]"

text \<open>
  \<open>node_id, _, bin1, bin2, bin3, _, _, _ = unpacked_data\<close> and
  \<open>node_id, temp_scaled, hum_scaled = struct.unpack(...)\<close>: a tuple of another length
  is a \<open>ValueError\<close> (\<open>None\<close> here).
\<close>

fun lora_fields :: "pyvalue list \<Rightarrow> (int \<times> int \<times> int \<times> int) option" where
  "lora_fields [V_int node, _, V_int bin1, V_int bin2, V_int bin3, _, _, _] =
     Some (node, bin1, bin2, bin3)"
| "lora_fields _ = None"

fun nrf_fields :: "pyvalue list \<Rightarrow> (int \<times> int \<times> int) option" where
  "nrf_fields [V_int node, V_int temp_scaled, V_int hum_scaled] =
     Some (node, temp_scaled, hum_scaled)"
| "nrf_fields _ = None"

section \<open>Alert rules and \<open>str.format\<close>\<close>

text \<open>
  A rule of \<open>rules.yaml\<close>. The message template is kept as \<open>str.format\<close> parses it:
  literal text and the replacement fields \<open>{node}\<close>, \<open>{value}\<close>, \<open>{threshold}\<close>.
\<close>

datatype segment = Lit string | Node | Value | Threshold

record rule =
  rule_node_id :: int
  field_to_monitor :: string
  threshold :: int
  alert_message :: "segment list"

fun str_nat :: "nat \<Rightarrow> string" where
  "str_nat n = (if n < 10 then [''0123456789'' ! n]
                else str_nat (n div 10) @ [''0123456789'' ! (n mod 10)])"

declare str_nat.simps [simp del]

definition str_int :: "int \<Rightarrow> string" where
  "str_int i = (if i < 0 then CHR ''-'' # str_nat (nat (- i)) else str_nat (nat i))"

fun render_segment :: "int \<Rightarrow> int \<Rightarrow> int \<Rightarrow> segment \<Rightarrow> string" where
  "render_segment node v thr (Lit s) = s"
| "render_segment node v thr Node = str_int node"
| "render_segment node v thr Value = str_int v"
| "render_segment node v thr Threshold = str_int thr"

definition format_message :: "segment list \<Rightarrow> int \<Rightarrow> int \<Rightarrow> int \<Rightarrow> string" where
  "format_message tmpl node v thr = concat (map (render_segment node v thr) tmpl)"

section \<open>The processor (\<open>processing_thread.py\<close>)\<close>

text \<open>
  What the processor cannot decide itself, read once per packet: the clock
  (\<open>datetime.utcnow().isoformat()\<close>) and whether the SQLite calls raise
  \<open>sqlite3.Error\<close>.
\<close>

record env =
  now :: string
  insert_ok :: bool
  commit_ok :: bool
  rollback_ok :: bool

datatype db_call = Execute_insert | Commit | Rollback

record processor =
  db :: store
  alert_q :: "string queue"
  log_records :: "log_record list"
  db_calls :: "db_call list"

definition logging :: "level \<Rightarrow> string \<Rightarrow> processor \<Rightarrow> processor" where
  "logging lvl msg s = s\<lparr>log_records := log_records s @ [(lvl, msg)]\<rparr>"

text \<open>
  \<open>cursor.execute(INSERT ...)\<close> followed by \<open>db_conn.commit()\<close> on the processor's
  connection: the row is in the store once the commit has returned; \<open>False\<close> is a
  \<open>sqlite3.Error\<close> from either call. A rollback discards the pending insert, so the
  store is as before.
\<close>

definition execute_and_commit ::
  "env \<Rightarrow> (store \<Rightarrow> store) \<Rightarrow> processor \<Rightarrow> bool \<times> processor" where
  "execute_and_commit e ins s =
     (let s1 = s\<lparr>db_calls := db_calls s @ [Execute_insert]\<rparr> in
      if \<not> insert_ok e then (False, s1)
      else
        let s2 = s1\<lparr>db_calls := db_calls s1 @ [Commit]\<rparr> in
        if \<not> commit_ok e then (False, s2)
        else (True, s2\<lparr>db := ins (db s2)\<rparr>))"

definition rollback :: "env \<Rightarrow> processor \<Rightarrow> py_exception option \<times> processor" where
  "rollback e s =
     (if rollback_ok e then None else Some Sqlite3_error,
      s\<lparr>db_calls := db_calls s @ [Rollback]\<rparr>)"

definition insert_fatigue_row ::
  "string \<Rightarrow> int \<Rightarrow> int \<Rightarrow> int \<Rightarrow> int \<Rightarrow> store \<Rightarrow> store" where
  "insert_fatigue_row ts node bin1 bin2 bin3 d =
     d\<lparr>fatigue_log := fatigue_log d @
          [\<lparr>log_id = Suc (fatigue_seq d), timestamp = ts, node_id = node,
            bin_1_cycles = bin1, bin_2_cycles = bin2, bin_3_cycles = bin3,
            sent_to_cloud = 0\<rparr>],
       fatigue_seq := Suc (fatigue_seq d)\<rparr>"

definition insert_environment_row ::
  "string \<Rightarrow> int \<Rightarrow> real \<Rightarrow> real \<Rightarrow> store \<Rightarrow> store" where
  "insert_environment_row ts node temperature humidity d =
     d\<lparr>environment_log := environment_log d @
          [\<lparr>env_log_id = Suc (environment_seq d), received_at = ts, env_node_id = node,
            temperature_c = temperature, humidity_rh = humidity\<rparr>],
       environment_seq := Suc (environment_seq d)\<rparr>"

text \<open>\<open>_check_alerting_rules\<close>; \<open>data\<close> is the dict of the three bins.\<close>

fun check_alerting_rules ::
  "rule list \<Rightarrow> int \<Rightarrow> (string \<rightharpoonup> int) \<Rightarrow> processor \<Rightarrow> processor" where
  "check_alerting_rules [] node data s = s"
| "check_alerting_rules (r # rs) node data s =
     check_alerting_rules rs node data
       (if rule_node_id r = node then
          (case data (field_to_monitor r) of
             None \<Rightarrow> s
           | Some v \<Rightarrow>
               if v > threshold r then
                 (let alert_msg = format_message (alert_message r) node v (threshold r) in
                  case put_q alert_msg (alert_q s) of
                    Some q \<Rightarrow> logging WARNING (''ALERT TRIGGERED: '' @ alert_msg) (s\<lparr>alert_q := q\<rparr>)
                  | None \<Rightarrow> logging ERROR ''Alert queue is full. Cannot send new alert.'' s)
               else s)
        else s)"

definition bins_dict :: "int \<Rightarrow> int \<Rightarrow> int \<Rightarrow> (string \<rightharpoonup> int)" where
  "bins_dict bin1 bin2 bin3 =
     map_of [(''bin_1_cycles'', bin1), (''bin_2_cycles'', bin2), (''bin_3_cycles'', bin3)]"

text \<open>
  \<open>_process_lora_packet\<close>. The result pairs the exception that leaves the function
  (\<open>None\<close> for a normal return) with the state.
\<close>

definition process_lora_packet ::
  "rule list \<Rightarrow> env \<Rightarrow> bytes \<Rightarrow> processor \<Rightarrow> py_exception option \<times> processor" where
  "process_lora_packet rules e packet s =
     (case struct_unpack lora_format packet of
        Inl _ \<Rightarrow> (None, logging ERROR ''Failed to unpack LoRa packet'' s)
      | Inr unpacked_data \<Rightarrow>
          (case lora_fields unpacked_data of
             None \<Rightarrow> (Some Value_error, s)
           | Some (node, bin1, bin2, bin3) \<Rightarrow>
               (case execute_and_commit e (insert_fatigue_row (now e) node bin1 bin2 bin3) s of
                  (True, s1) \<Rightarrow>
                    (None, check_alerting_rules rules node (bins_dict bin1 bin2 bin3)
                             (logging INFO ''Logged fatigue data'' s1))
                | (False, s1) \<Rightarrow>
                    rollback e (logging ERROR ''Database error for fatigue_log'' s1))))"

text \<open>\<open>_process_nrf_packet\<close>; \<open>temp_scaled / 100.0\<close> is kept as the exact quotient.\<close>

definition process_nrf_packet ::
  "env \<Rightarrow> bytes \<Rightarrow> processor \<Rightarrow> py_exception option \<times> processor" where
  "process_nrf_packet e payload s =
     (if length payload \<noteq> 5 then
        (None, logging WARNING ''Received nRF packet of incorrect length'' s)
      else
        (case struct_unpack nrf_format payload of
           Inl _ \<Rightarrow> (None, logging ERROR ''Failed to unpack nRF packet'' s)
         | Inr vs \<Rightarrow>
             (case nrf_fields vs of
                None \<Rightarrow> (None, logging ERROR ''An unexpected error occurred in _process_nrf_packet'' s)
              | Some (node, temp_scaled, hum_scaled) \<Rightarrow>
                  (let temperature = real_of_int temp_scaled / 100;
                       humidity = real_of_int hum_scaled / 100
                   in case execute_and_commit e
                             (insert_environment_row (now e) node temperature humidity) s of
                        (True, s1) \<Rightarrow> (None, logging INFO ''Logged environment data'' s1)
                      | (False, s1) \<Rightarrow>
                          rollback e (logging ERROR ''Database error for environment_log'' s1)))))"

text \<open>
  \<open>DataProcessingThread.run\<close> as a machine that the two ingestors run beside: a
  \<open>Step\<close> is one evaluation of a loop test together with the body it guards, an
  \<open>Arrive\<close> is an ingestor's \<open>put\<close> (dropped when the queue is full), and
  \<open>Set_shutdown\<close> sets the shutdown event. \<open>served\<close> lists the packets in the order
  they were taken from the queues, \<open>sleeps\<close> counts the calls of \<open>time.sleep(0.1)\<close>.
  \<open>get_nowait\<close> giving \<open>None\<close> is \<open>queue.Empty\<close>, whose handler sleeps; an exception
  that leaves a packet's handling is logged by the loop's \<open>except Exception\<close> and the
  outer loop goes on.
\<close>

datatype tier = High | Low

datatype pc = Outer_test | High_test | Low_test | Stopped

record proc_thread =
  core :: processor
  high_prio_q :: "bytes queue"
  low_prio_q :: "bytes queue"
  pc :: pc
  processed_something :: bool
  shutdown_event :: bool
  served :: "(tier \<times> bytes) list"
  sleeps :: nat

definition after_item ::
  "tier \<Rightarrow> bytes \<Rightarrow> py_exception option \<times> processor \<Rightarrow> proc_thread \<Rightarrow> proc_thread" where
  "after_item tr pkt res t =
     (case res of
        (None, c) \<Rightarrow>
          t\<lparr>core := c, processed_something := True, served := served t @ [(tr, pkt)]\<rparr>
      | (Some ex, c) \<Rightarrow>
          t\<lparr>core := logging ERROR ''An error occurred in the data processing loop'' c,
            served := served t @ [(tr, pkt)], pc := Outer_test\<rparr>)"

definition run_step :: "rule list \<Rightarrow> env \<Rightarrow> proc_thread \<Rightarrow> proc_thread" where
  "run_step rules e t =
     (case pc t of
        Stopped \<Rightarrow> t
      | Outer_test \<Rightarrow>
          if shutdown_event t then t\<lparr>pc := Stopped\<rparr>
          else t\<lparr>pc := High_test, processed_something := False\<rparr>
      | High_test \<Rightarrow>
          if q_empty (high_prio_q t) then t\<lparr>pc := Low_test\<rparr>
          else
            (case get_nowait (high_prio_q t) of
               None \<Rightarrow> t\<lparr>pc := Outer_test, sleeps := Suc (sleeps t)\<rparr>
             | Some (lora_packet, q) \<Rightarrow>
                 after_item High lora_packet
                   (process_lora_packet rules e lora_packet (core t)) (t\<lparr>high_prio_q := q\<rparr>))
      | Low_test \<Rightarrow>
          if q_empty (low_prio_q t) then
            t\<lparr>pc := Outer_test,
              sleeps := (if processed_something t then sleeps t else Suc (sleeps t))\<rparr>
          else
            (case get_nowait (low_prio_q t) of
               None \<Rightarrow> t\<lparr>pc := Outer_test, sleeps := Suc (sleeps t)\<rparr>
             | Some (nrf_packet, q) \<Rightarrow>
                 after_item Low nrf_packet
                   (process_nrf_packet e nrf_packet (core t)) (t\<lparr>low_prio_q := q\<rparr>)))"

datatype event = Arrive tier bytes | Set_shutdown | Step env

definition offer :: "'a \<Rightarrow> 'a queue \<Rightarrow> 'a queue" where
  "offer x q = (case put_q x q of None \<Rightarrow> q | Some q' \<Rightarrow> q')"

fun run_event :: "rule list \<Rightarrow> proc_thread \<Rightarrow> event \<Rightarrow> proc_thread" where
  "run_event rules t (Arrive High p) = t\<lparr>high_prio_q := offer p (high_prio_q t)\<rparr>"
| "run_event rules t (Arrive Low p) = t\<lparr>low_prio_q := offer p (low_prio_q t)\<rparr>"
| "run_event rules t Set_shutdown = t\<lparr>shutdown_event := True\<rparr>"
| "run_event rules t (Step e) = run_step rules e t"

definition run :: "rule list \<Rightarrow> event list \<Rightarrow> proc_thread \<Rightarrow> proc_thread" where
  "run rules evs t = foldl (run_event rules) t evs"

section \<open>The modem and the egress (\<open>communications_thread.py\<close>)\<close>

definition GATEWAY_ID :: string where
  "GATEWAY_ID = ''GW001''"

definition GPRS_APN :: string where
  "GPRS_APN = ''your_apn''"

definition CLOUD_ENDPOINT_URL :: string where
  "CLOUD_ENDPOINT_URL = ''http://your-cloud-endpoint.com/api/setu-data''"


text \<open>Python's \<open>needle in haystack\<close> on strings.\<close>

fun starts_with :: "string \<Rightarrow> string \<Rightarrow> bool" where
  "starts_with [] hay = True"
| "starts_with (n # ns) [] = False"
| "starts_with (n # ns) (h # hs) = (n = h \<and> starts_with ns hs)"

fun str_in :: "string \<Rightarrow> string \<Rightarrow> bool" where
  "str_in needle [] = (needle = [])"
| "str_in needle (h # hs) = (starts_with needle (h # hs) \<or> str_in needle hs)"

text \<open>
  The serial port of the modem. \<open>replies\<close> is what the modem will say: for each
  command still to be sent, the lines that \<open>readline\<close> returns (decoded and stripped)
  before that command's timeout runs out. \<open>written\<close> is what has been written to the
  port. A \<open>SIM800LManager\<close> is its \<open>ser\<close> field, \<open>None\<close> when the port could not be
  opened.
\<close>

record serial_port =
  replies :: "string list list"
  written :: "string list"

type_synonym sim800l = "serial_port option"

fun read_until :: "string \<Rightarrow> string list \<Rightarrow> string \<Rightarrow> bool \<times> string \<times> string list" where
  "read_until expected_response [] response = (False, response, [])"
| "read_until expected_response (line # rest) response =
     (if line = [] then read_until expected_response rest response
      else if str_in expected_response line then (True, response @ line @ [CHR 0x0A], rest)
      else read_until expected_response rest (response @ line @ [CHR 0x0A]))"

text \<open>
  \<open>send_at_command\<close>: lines are read until one holds the expected response or the
  timeout ends; lines that arrived but were not read wait in the port's buffer for the
  next command.
\<close>

definition send_at_command ::
  "string \<Rightarrow> string \<Rightarrow> sim800l \<Rightarrow> (bool \<times> string) \<times> sim800l" where
  "send_at_command command expected_response ser =
     (case ser of
        None \<Rightarrow> ((False, ''Serial port not available''), None)
      | Some port \<Rightarrow>
          (let (lines, later) = (case replies port of [] \<Rightarrow> ([], []) | r # rs \<Rightarrow> (r, rs));
               (found, response, unread) = read_until expected_response lines [];
               later' = (if unread = [] then later
                         else case later of [] \<Rightarrow> [unread] | r # rs \<Rightarrow> (unread @ r) # rs)
           in ((found, response),
               Some (port\<lparr>replies := later',
                          written := written port @ [command @ [CHR 0x0D, CHR 0x0A]]\<rparr>))))"

definition at_cmd :: "string \<Rightarrow> sim800l \<Rightarrow> sim800l" where
  "at_cmd command ser = snd (send_at_command command ''OK'' ser)"

definition ser_write :: "string \<Rightarrow> sim800l \<Rightarrow> sim800l option" where
  "ser_write data ser =
     (case ser of
        None \<Rightarrow> None
      | Some port \<Rightarrow> Some (Some (port\<lparr>written := written port @ [data]\<rparr>)))"

definition quoted :: "string \<Rightarrow> string" where
  "quoted s = CHR 0x22 # s @ [CHR 0x22]"

text \<open>The \<open>finally\<close> clause of \<open>_http_post_payload\<close>.\<close>

definition http_cleanup :: "sim800l \<Rightarrow> sim800l" where
  "http_cleanup ser = at_cmd ''AT+SAPBR=0,1'' (at_cmd ''AT+HTTPTERM'' ser)"

text \<open>
  \<open>_http_post_payload\<close>: \<open>Inr\<close> is the returned bool, \<open>Inl\<close> an exception that leaves
  the function (after the \<open>finally\<close> clause has run).
\<close>

definition http_post_payload ::
  "string \<Rightarrow> sim800l option \<Rightarrow> (py_exception + bool) \<times> sim800l option" where
  "http_post_payload payload sm =
     (case sm of
        None \<Rightarrow> (Inr False, None)
      | Some m \<Rightarrow>
          (let (r1, m1) = send_at_command ''AT+CREG?'' ''OK'' m;
               (registered, m2) =
                 (if str_in ''+CREG: 0,1'' (snd r1) then (True, m1)
                  else let (r2, m') = send_at_command ''AT+CREG?'' ''OK'' m1
                       in (str_in ''+CREG: 0,5'' (snd r2), m'))
           in if \<not> registered then (Inr False, Some (http_cleanup m2))
              else
                (let m3 = at_cmd (''AT+SAPBR=3,1,'' @ quoted ''APN'' @ '','' @ quoted GPRS_APN) m2;
                     m4 = at_cmd ''AT+SAPBR=1,1'' m3;
                     m5 = at_cmd ''AT+HTTPINIT'' m4;
                     m6 = at_cmd (''AT+HTTPPARA='' @ quoted ''CID'' @ '',1'') m5;
                     m7 = at_cmd (''AT+HTTPPARA='' @ quoted ''URL'' @ '','' @ quoted CLOUD_ENDPOINT_URL) m6;
                     m8 = at_cmd (''AT+HTTPPARA='' @ quoted ''CONTENT'' @ '','' @ quoted ''application/json'') m7;
                     m9 = snd (send_at_command (''AT+HTTPDATA='' @ str_nat (length payload) @ '',10000'')
                                 ''DOWNLOAD'' m8)
                 in case ser_write payload m9 of
                      None \<Rightarrow> (Inl Attribute_error, Some (http_cleanup m9))
                    | Some m10 \<Rightarrow>
                        (let (r11, m11) = send_at_command [] ''OK'' m10
                         in if \<not> fst r11 then (Inr False, Some (http_cleanup m11))
                            else
                              (let (r12, m12) =
                                     send_at_command ''AT+HTTPACTION=1'' ''+HTTPACTION'' m11
                               in (Inr (fst r12 \<and> str_in ''1,200'' (snd r12)),
                                   Some (http_cleanup m12)))))))"

text \<open>\<open>json.dumps\<close> of the batch, with the default separators.\<close>

definition json_string :: "string \<Rightarrow> string" where
  "json_string s =
     quoted (concat (map (\<lambda>c. if c = CHR 0x22 \<or> c = CHR 0x5C then [CHR 0x5C, c] else [c]) s))"

definition json_row :: "fatigue_row \<Rightarrow> string" where
  "json_row row =
     ''{'' @ quoted ''gateway_id'' @ '': '' @ json_string GATEWAY_ID @ '', '' @
     quoted ''packet_id'' @ '': '' @ str_nat (log_id row) @ '', '' @
     quoted ''node_id'' @ '': '' @ str_int (node_id row) @ '', '' @
     quoted ''timestamp'' @ '': '' @ json_string (timestamp row) @ '', '' @
     quoted ''fatigue_cycles'' @ '': {'' @
       quoted ''bin_1'' @ '': '' @ str_int (bin_1_cycles row) @ '', '' @
       quoted ''bin_2'' @ '': '' @ str_int (bin_2_cycles row) @ '', '' @
       quoted ''bin_3'' @ '': '' @ str_int (bin_3_cycles row) @ ''}}''"

fun join :: "string \<Rightarrow> string list \<Rightarrow> string" where
  "join sep [] = []"
| "join sep [x] = x"
| "join sep (x # y # ys) = x @ sep @ join sep (y # ys)"

definition json_dumps :: "fatigue_row list \<Rightarrow> string" where
  "json_dumps records = ''['' @ join '', '' (map json_row records) @ '']''"

text \<open>
  \<open>forward_data_to_cloud\<close>. The SELECT has no ORDER BY. \<open>log_id\<close> is the
  \<open>INTEGER PRIMARY KEY\<close> of \<open>fatigue_log\<close>, that is the key of the B-tree the table is
  stored in, and \<open>db_setup.py\<close> creates no index: SQLite answers the query by walking
  that B-tree, in ascending \<open>log_id\<close>, and \<open>LIMIT 50\<close> stops the walk at the 50th
  matching row. The UPDATE and its commit are one transaction.
\<close>

record comms =
  sim_manager :: "sim800l option"
  comm_db :: store
  comm_log :: "log_record list"

definition select_unsent :: "store \<Rightarrow> fatigue_row list" where
  "select_unsent d =
     take 50 (filter (\<lambda>row. sent_to_cloud row = 0) (sort_key log_id (fatigue_log d)))"

definition mark_sent :: "nat list \<Rightarrow> store \<Rightarrow> store" where
  "mark_sent log_ids_to_update d =
     d\<lparr>fatigue_log :=
          map (\<lambda>row. if log_id row \<in> set log_ids_to_update then row\<lparr>sent_to_cloud := 1\<rparr> else row)
            (fatigue_log d)\<rparr>"

definition comm_logging :: "level \<Rightarrow> string \<Rightarrow> comms \<Rightarrow> comms" where
  "comm_logging lvl msg c = c\<lparr>comm_log := comm_log c @ [(lvl, msg)]\<rparr>"

definition forward_data_to_cloud :: "comms \<Rightarrow> py_exception option \<times> comms" where
  "forward_data_to_cloud c =
     (let c0 = comm_logging INFO ''Checking for data to forward to the cloud...'' c;
          records = select_unsent (comm_db c0)
      in if records = [] then (None, comm_logging INFO ''No new data to send.'' c0)
         else
           (let log_ids_to_update = map log_id records;
                json_payload = json_dumps records
            in case http_post_payload json_payload (sim_manager c0) of
                 (Inl ex, sm) \<Rightarrow> (Some ex, c0\<lparr>sim_manager := sm\<rparr>)
               | (Inr success, sm) \<Rightarrow>
                   if success then
                     (None, comm_logging INFO ''Successfully sent records. Updating database.''
                              (c0\<lparr>sim_manager := sm,
                                  comm_db := mark_sent log_ids_to_update (comm_db c0)\<rparr>))
                   else
                     (None, comm_logging ERROR ''Failed to send data to cloud. Database not updated.''
                              (c0\<lparr>sim_manager := sm\<rparr>))))"










section \<open>The archiver (\<open>archive.py\<close>)\<close>

text \<open>
  What a run of \<open>archive_and_purge\<close> finds: whether the database file exists, whether
  the archive directory can be made, whether the connection opens, the cutoff
  \<open>(datetime.utcnow() - timedelta(days=ARCHIVE_DAYS_THRESHOLD)).isoformat()\<close>, whether
  writing the file raises (\<open>Some k\<close>: after \<open>k\<close> data rows) and whether the DELETE
  transaction commits. \<open>archive_files\<close> holds the data rows of each file written,
  \<open>effects\<close> what the run did to the file system and the store, in order.
\<close>

record archive_env =
  db_exists :: bool
  makedirs_ok :: bool
  connect_ok :: bool
  cutoff_date :: string
  write_failure :: "nat option"
  delete_ok :: bool

datatype archive_effect =
    File_closed "fatigue_row list"
  | File_broken "fatigue_row list"
  | Rows_deleted "fatigue_row list"

record archiver =
  arch_db :: store
  archive_files :: "fatigue_row list list"
  effects :: "archive_effect list"
  arch_log :: "log_record list"

definition arch_logging :: "level \<Rightarrow> string \<Rightarrow> archiver \<Rightarrow> archiver" where
  "arch_logging lvl msg a = a\<lparr>arch_log := arch_log a @ [(lvl, msg)]\<rparr>"

definition select_old :: "string \<Rightarrow> store \<Rightarrow> fatigue_row list" where
  "select_old cutoff d = filter (\<lambda>row. timestamp row < cutoff) (fatigue_log d)"

definition delete_old :: "string \<Rightarrow> store \<Rightarrow> store" where
  "delete_old cutoff d =
     d\<lparr>fatigue_log := filter (\<lambda>row. \<not> timestamp row < cutoff) (fatigue_log d)\<rparr>"

definition archive_and_purge :: "archive_env \<Rightarrow> archiver \<Rightarrow> archiver" where
  "archive_and_purge e a0 =
     (let a = arch_logging INFO ''--- Archive and Purge Process Started ---'' a0 in
      if \<not> db_exists e then arch_logging CRITICAL ''Database file not found. Aborting.'' a
      else if \<not> makedirs_ok e then arch_logging CRITICAL ''Could not create archive directory'' a
      else if \<not> connect_ok e then
        arch_logging CRITICAL ''An unexpected error occurred during the archive process.'' a
      else
        (let records = select_old (cutoff_date e) (arch_db a) in
         if records = [] then
           arch_logging INFO ''No records old enough to archive. Process finished.'' a
         else
           (case write_failure e of
              Some k \<Rightarrow>
                arch_logging CRITICAL ''An unexpected error occurred during the archive process.''
                  (a\<lparr>archive_files := archive_files a @ [take k records],
                     effects := effects a @ [File_broken (take k records)]\<rparr>)
            | None \<Rightarrow>
                (let a1 = arch_logging INFO ''Successfully wrote archive file.''
                            (a\<lparr>archive_files := archive_files a @ [records],
                               effects := effects a @ [File_closed records]\<rparr>)
                 in if \<not> delete_ok e then
                      arch_logging CRITICAL
                        ''An unexpected error occurred during the archive process.'' a1
                    else
                      arch_logging INFO ''Successfully purged records from the live database.''
                        (a1\<lparr>arch_db := delete_old (cutoff_date e) (arch_db a1),
                            effects := effects a1 @
                              [Rows_deleted (select_old (cutoff_date e) (arch_db a1))]\<rparr>)))))"

section \<open>The bus arbiter (\<open>spi_lock.py\<close>)\<close>

text \<open>
  The \<open>threading.Lock\<close> with the thread that holds it, the one shared \<open>SpiDev\<close>, and
  the trace of what was done to the bus and by the ingestors, in order.
\<close>

datatype worker = LoRaWorker | NRFWorker

datatype bus_event =
    Lock_acquired worker
  | Lock_released
  | Spi_opened nat
  | Spi_open_failed nat
  | Speed_set nat
  | Speed_failed
  | Spi_closed
  | Spi_close_failed
  | Radio_setup bool
  | Sleep_5
  | Irq_read
  | Irq_cleared
  | Packet_read bytes
  | Enqueued bytes
  | Dropped bytes
  | Rx_armed
  | Logged level string

record bus =
  lock :: "worker option"
  spi_is_open :: bool
  trace :: "bus_event list"

definition emit :: "bus_event \<Rightarrow> bus \<Rightarrow> bus" where
  "emit ev b = b\<lparr>trace := trace b @ [ev]\<rparr>"

datatype enter_result = Blocked | Raised bus | Handle bus

text \<open>
  \<open>_SPIDevice.__enter__\<close>: \<open>Blocked\<close> when \<open>acquire()\<close> does not return because the
  lock is held, \<open>Raised\<close> when the exception is re-raised, \<open>Handle\<close> when the
  \<open>SpiDev\<close> is returned.
\<close>

definition enter :: "worker \<Rightarrow> nat \<Rightarrow> nat \<Rightarrow> bool \<Rightarrow> bool \<Rightarrow> bus \<Rightarrow> enter_result" where
  "enter w device max_speed_hz opens speeds b =
     (case lock b of
        Some _ \<Rightarrow> Blocked
      | None \<Rightarrow>
          (let b1 = emit (Lock_acquired w) (b\<lparr>lock := Some w\<rparr>) in
           if \<not> opens then
             Raised (emit (Logged ERROR ''Failed to open SPI device'')
                      (emit Lock_released ((emit (Spi_open_failed device) b1)\<lparr>lock := None\<rparr>)))
           else
             (let b2 = emit (Spi_opened device) (b1\<lparr>spi_is_open := True\<rparr>) in
              if \<not> speeds then
                Raised (emit (Logged ERROR ''Failed to open SPI device'')
                         (emit Lock_released ((emit Speed_failed b2)\<lparr>lock := None\<rparr>)))
              else Handle (emit (Speed_set max_speed_hz) b2))))"

text \<open>
  \<open>_SPIDevice.__exit__\<close>; \<open>release()\<close> of a lock that nobody holds is a
  \<open>RuntimeError\<close>.
\<close>

definition exit_scope :: "bool \<Rightarrow> bus \<Rightarrow> py_exception option \<times> bus" where
  "exit_scope closes b =
     (let b1 = (if closes then emit Spi_closed (b\<lparr>spi_is_open := False\<rparr>)
                else emit (Logged ERROR ''Error closing SPI device'') (emit Spi_close_failed b))
      in case lock b1 of
           None \<Rightarrow> (Some Runtime_error, b1)
         | Some _ \<Rightarrow> (None, emit Lock_released (b1\<lparr>lock := None\<rparr>)))"

text \<open>
  \<open>with spi_lock.acquire(...) as spi: body\<close>. The body gets the bus and says whether
  it raised; \<open>__exit__\<close> runs on both ways out and does not swallow the exception.
  \<open>None\<close>: blocked in \<open>acquire()\<close>.
\<close>

definition with_spi ::
  "worker \<Rightarrow> nat \<Rightarrow> nat \<Rightarrow> bool \<Rightarrow> bool \<Rightarrow> bool \<Rightarrow>
     ('a \<times> bus \<Rightarrow> py_exception option \<times> 'a \<times> bus) \<Rightarrow> 'a \<times> bus
     \<Rightarrow> (py_exception option \<times> 'a \<times> bus) option" where
  "with_spi w device max_speed_hz opens speeds closes body sc =
     (case enter w device max_speed_hz opens speeds (snd sc) of
        Blocked \<Rightarrow> None
      | Raised b1 \<Rightarrow> Some (Some IO_error, fst sc, b1)
      | Handle b1 \<Rightarrow>
          (case body (fst sc, b1) of
             (ex, s2, b2) \<Rightarrow>
               (case exit_scope closes b2 of
                  (Some ex2, b3) \<Rightarrow> Some (Some ex2, s2, b3)
                | (None, b3) \<Rightarrow> Some (ex, s2, b3))))"

section \<open>The radio ingestors (\<open>worker_threads.py\<close>)\<close>

text \<open>
  What the hardware does during one wake-up: whether the device opens, takes the
  speed and closes, what \<open>setup_lora\<close>/\<open>setup_nrf\<close> returns, the receive-done bit
  (\<open>None\<close>: reading the flags raises), the packet read (\<open>None\<close>: the read raises),
  whether \<open>setRx()\<close> returns, and for the scout radio the packets its FIFO hands out
  while \<open>available()\<close> is true.
\<close>

record radio_env =
  open_ok :: bool
  speed_ok :: bool
  close_ok :: bool
  setup_result :: bool
  rx_done :: "bool option"
  read_result :: "bytes option"
  set_rx_ok :: bool
  fifo :: "bytes option list"

record ingestor =
  data_queue :: "bytes queue"
  is_setup :: bool
  packet_event :: bool

text \<open>The state inside the \<open>with\<close> block: the ingestor's own state and the bus.\<close>

type_synonym scope = "ingestor \<times> bus"

definition ev :: "bus_event \<Rightarrow> scope \<Rightarrow> scope" where
  "ev x sc = (fst sc, emit x (snd sc))"

text \<open>\<open>self.data_queue.put(packet_payload, timeout=0.5)\<close> with its \<open>except queue.Full\<close>.\<close>

definition enqueue :: "string \<Rightarrow> bytes \<Rightarrow> scope \<Rightarrow> scope" where
  "enqueue full_msg payload sc =
     (case put_q payload (data_queue (fst sc)) of
        Some q \<Rightarrow> ev (Enqueued payload) ((fst sc)\<lparr>data_queue := q\<rparr>, snd sc)
      | None \<Rightarrow> ev (Logged WARNING full_msg) (ev (Dropped payload) sc))"

definition radio_setup :: "radio_env \<Rightarrow> scope \<Rightarrow> scope" where
  "radio_setup e sc =
     (if is_setup (fst sc) then sc
      else ev (Radio_setup (setup_result e)) ((fst sc)\<lparr>is_setup := setup_result e\<rparr>, snd sc))"

definition arm_rx :: "radio_env \<Rightarrow> scope \<Rightarrow> py_exception option \<times> scope" where
  "arm_rx e sc = (if set_rx_ok e then (None, ev Rx_armed sc) else (Some IO_error, sc))"







section \<open>Vocabulary of the statements\<close>

text \<open>Little-endian fields of a buffer, read at a byte offset.\<close>

definition u16_at :: "bytes \<Rightarrow> nat \<Rightarrow> int" where
  "u16_at bs i = uint (bs ! i) + 256 * uint (bs ! (i + 1))"

definition u32_at :: "bytes \<Rightarrow> nat \<Rightarrow> int" where
  "u32_at bs i = uint (bs ! i) + 256 * uint (bs ! (i + 1)) + 65536 * uint (bs ! (i + 2))
                 + 16777216 * uint (bs ! (i + 3))"

definition i16_at :: "bytes \<Rightarrow> nat \<Rightarrow> int" where
  "i16_at bs i = (if u16_at bs i < 32768 then u16_at bs i else u16_at bs i - 65536)"

text \<open>
  When a rule fires for a node and the dict of its bins, the message it renders, and
  what \<open>alert_q.put(alert_msg, block=False)\<close> with its \<open>except queue.Full\<close> does to
  the processor.
\<close>

definition fires :: "int \<Rightarrow> (string \<rightharpoonup> int) \<Rightarrow> rule \<Rightarrow> bool" where
  "fires node data r =
     (rule_node_id r = node \<and>
      (case data (field_to_monitor r) of None \<Rightarrow> False | Some v \<Rightarrow> threshold r < v))"

definition rendered :: "int \<Rightarrow> (string \<rightharpoonup> int) \<Rightarrow> rule \<Rightarrow> string" where
  "rendered node data r =
     (case data (field_to_monitor r) of
        None \<Rightarrow> []
      | Some v \<Rightarrow> format_message (alert_message r) node v (threshold r))"

definition offer_alert :: "processor \<Rightarrow> string \<Rightarrow> processor" where
  "offer_alert s alert_msg =
     (if q_full (alert_q s) then logging ERROR ''Alert queue is full. Cannot send new alert.'' s
      else logging WARNING (''ALERT TRIGGERED: '' @ alert_msg)
             (s\<lparr>alert_q := (alert_q s)\<lparr>items := items (alert_q s) @ [alert_msg]\<rparr>\<rparr>))"

text \<open>
  The packets and the rule of the end-to-end scenarios, a clock reading with a store
  that accepts every call, and the processor at start with the queue sizes of
  \<open>main\<close>.
\<close>

definition scenario_1_packet :: bytes where
  "scenario_1_packet =
     [0x01, 0x00, 0xFF, 0x05, 0x00, 0x00, 0x00, 0x0A, 0x00, 0x00, 0x00, 0x14, 0x00, 0x00, 0x00,
      0x00, 0x00, 0x80, 0x3F, 0x00, 0x00, 0x00, 0x40, 0x00]"

definition scenario_3_packet :: bytes where
  "scenario_3_packet = [0x2A, 0xF4, 0x01, 0x08, 0x07]"

definition scenario_2_rule :: rule where
  "scenario_2_rule =
     \<lparr>rule_node_id = 1, field_to_monitor = ''bin_3_cycles'', threshold = 15,
      alert_message = [Lit ''N'', Node, Lit '' val'', Value, Lit '' thr'', Threshold]\<rparr>"

definition env_ok :: env where
  "env_ok = \<lparr>now = ''2025-01-01T00:00:00'', insert_ok = True, commit_ok = True,
             rollback_ok = True\<rparr>"

definition empty_store :: store where
  "empty_store = \<lparr>fatigue_log = [], fatigue_seq = 0, environment_log = [],
                  environment_seq = 0\<rparr>"

definition processor_init :: processor where
  "processor_init =
     \<lparr>db = empty_store, alert_q = \<lparr>items = [], maxsize = 50\<rparr>, log_records = [],
      db_calls = []\<rparr>"

definition scout_packet_43 :: bytes where
  "scout_packet_43 = [0x2B, 0xF4, 0x01, 0x08, 0x07]"

definition thread_init :: proc_thread where
  "thread_init =
     \<lparr>core = processor_init, high_prio_q = \<lparr>items = [], maxsize = 100\<rparr>,
      low_prio_q = \<lparr>items = [], maxsize = 500\<rparr>, pc = Outer_test,
      processed_something = False, shutdown_event = False, served = [], sleeps = 0\<rparr>"

text \<open>
  Two scout payloads of 4 bytes, which \<open>_process_nrf_packet\<close> discards before it
  touches the database. The store as the started processor thread finds it: \<open>main\<close>
  builds the processor, and \<open>__init__\<close> opens the connection, on the main thread, and
  \<open>run\<close> uses it on the thread that \<open>start()\<close> creates; \<open>sqlite3.connect\<close> was
  called with the default \<open>check_same_thread\<close>, so \<open>cursor()\<close> and \<open>rollback()\<close>
  raise \<open>sqlite3.ProgrammingError\<close>, a \<open>sqlite3.Error\<close>, and nothing is written.
\<close>

definition scout_fragment_42 :: bytes where
  "scout_fragment_42 = [0x2A, 0xF4, 0x01, 0x08]"

definition scout_fragment_43 :: bytes where
  "scout_fragment_43 = [0x2B, 0xF4, 0x01, 0x08]"

definition store_of_other_thread :: env where
  "store_of_other_thread =
     \<lparr>now = ''2025-01-01T00:00:00'', insert_ok = False, commit_ok = False,
      rollback_ok = False\<rparr>"

text \<open>
  The processor after a fatigue row was committed and before the rules are evaluated;
  the processor after an insert or its commit failed and was rolled back; the rows that
  a primary packet and a scout packet are stored as.
\<close>

definition committed_fatigue :: "env \<Rightarrow> bytes \<Rightarrow> processor \<Rightarrow> processor" where
  "committed_fatigue e packet s =
     logging INFO ''Logged fatigue data''
       (s\<lparr>db_calls := db_calls s @ [Execute_insert, Commit],
          db := insert_fatigue_row (now e) (u16_at packet 0) (u32_at packet 3)
                  (u32_at packet 7) (u32_at packet 11) (db s)\<rparr>)"

definition failed_insert :: "string \<Rightarrow> env \<Rightarrow> processor \<Rightarrow> processor" where
  "failed_insert msg e s =
     s\<lparr>log_records := log_records s @ [(ERROR, msg)],
       db_calls := db_calls s @
         (if insert_ok e then [Execute_insert, Commit, Rollback]
          else [Execute_insert, Rollback])\<rparr>"

definition fatigue_row_of :: "env \<Rightarrow> bytes \<Rightarrow> store \<Rightarrow> fatigue_row" where
  "fatigue_row_of e packet d =
     \<lparr>log_id = Suc (fatigue_seq d), timestamp = now e, node_id = u16_at packet 0,
      bin_1_cycles = u32_at packet 3, bin_2_cycles = u32_at packet 7,
      bin_3_cycles = u32_at packet 11, sent_to_cloud = 0\<rparr>"

definition environment_row_of :: "env \<Rightarrow> bytes \<Rightarrow> store \<Rightarrow> environment_row" where
  "environment_row_of e payload d =
     \<lparr>env_log_id = Suc (environment_seq d), received_at = now e,
      env_node_id = uint (payload ! 0),
      temperature_c = real_of_int (i16_at payload 1) / 100,
      humidity_rh = real_of_int (u16_at payload 3) / 100\<rparr>"

text \<open>
  A run gets as far as the SELECT when the database file exists, the archive directory
  can be made and the connection opens. \<open>archived_rows\<close> are the data rows of the
  files that the run wrote. The store of scenario 6, with a third row stamped exactly
  at the cutoff, and a run on which nothing fails.
\<close>

definition reaches_select :: "archive_env \<Rightarrow> bool" where
  "reaches_select e = (db_exists e \<and> makedirs_ok e \<and> connect_ok e)"

definition archived_rows :: "archive_env \<Rightarrow> archiver \<Rightarrow> fatigue_row list" where
  "archived_rows e a =
     concat (drop (length (archive_files a)) (archive_files (archive_and_purge e a)))"

definition scenario_6_store :: store where
  "scenario_6_store =
     \<lparr>fatigue_log =
        [\<lparr>log_id = 1, timestamp = ''2024-09-30T08:15:00.250000'', node_id = 1, bin_1_cycles = 5,
          bin_2_cycles = 10, bin_3_cycles = 20, sent_to_cloud = 1\<rparr>,
         \<lparr>log_id = 2, timestamp = ''2024-11-04T08:15:00.250000'', node_id = 1, bin_1_cycles = 6,
          bin_2_cycles = 11, bin_3_cycles = 21, sent_to_cloud = 1\<rparr>,
         \<lparr>log_id = 3, timestamp = ''2025-07-27T08:15:00.250000'', node_id = 1, bin_1_cycles = 7,
          bin_2_cycles = 12, bin_3_cycles = 22, sent_to_cloud = 0\<rparr>],
      fatigue_seq = 3, environment_log = [], environment_seq = 0\<rparr>"

definition scenario_6_env :: archive_env where
  "scenario_6_env =
     \<lparr>db_exists = True, makedirs_ok = True, connect_ok = True,
      cutoff_date = ''2024-11-04T08:15:00.250000'', write_failure = None, delete_ok = True\<rparr>"

definition archiver_init :: "store \<Rightarrow> archiver" where
  "archiver_init d = \<lparr>arch_db = d, archive_files = [], effects = [], arch_log = []\<rparr>"

text \<open>
  Events of the trace that take or give back the lock, and events that are a call of
  \<open>data_queue.put\<close> (the payload went in, or the queue stayed full and it was
  dropped). \<open>held_after held evs\<close> says whether the lock is held once the events
  \<open>evs\<close> have happened, starting from \<open>held\<close>; \<open>enqueues_when wanted held evs\<close> says
  that every put in \<open>evs\<close> happens while the lock is held (\<open>wanted = True\<close>) or while
  it is free (\<open>wanted = False\<close>). A body is quiet when it leaves the lock alone. An
  ingestor that was just woken, a free bus, and hardware on which nothing fails.
\<close>

fun lock_event :: "bus_event \<Rightarrow> bool" where
  "lock_event (Lock_acquired w) = True"
| "lock_event Lock_released = True"
| "lock_event evt = False"

fun put_event :: "bus_event \<Rightarrow> bool" where
  "put_event (Enqueued p) = True"
| "put_event (Dropped p) = True"
| "put_event evt = False"

fun enqueues_when :: "bool \<Rightarrow> bool \<Rightarrow> bus_event list \<Rightarrow> bool" where
  "enqueues_when wanted held [] = True"
| "enqueues_when wanted held (Lock_acquired w # evs) = enqueues_when wanted True evs"
| "enqueues_when wanted held (Lock_released # evs) = enqueues_when wanted False evs"
| "enqueues_when wanted held (evt # evs) =
     ((put_event evt \<longrightarrow> held = wanted) \<and> enqueues_when wanted held evs)"






text \<open>
  The store of scenarios 4 and 5 (three unsent rows 10, 11, 12); what a registered
  modem answers during the data-session dialogue, ending the POST with a given
  \<open>+HTTPACTION\<close> line; what it answers during SMS setup; an egress whose modem will
  give these answers. The communications thread as \<open>__init__\<close> and the first lines of
  \<open>run\<close> leave it at clock \<open>t0\<close>, and two passes of its loop: one 21 seconds after
  the start, with a modem that answers the SMS setup and then the upload, and one 921
  seconds after the start.
\<close>

definition store_10_11_12 :: store where
  "store_10_11_12 =
     \<lparr>fatigue_log =
        [\<lparr>log_id = 10, timestamp = ''2025-01-01T00:00:00'', node_id = 1, bin_1_cycles = 5,
          bin_2_cycles = 10, bin_3_cycles = 20, sent_to_cloud = 0\<rparr>,
         \<lparr>log_id = 11, timestamp = ''2025-01-01T00:10:00'', node_id = 1, bin_1_cycles = 6,
          bin_2_cycles = 10, bin_3_cycles = 20, sent_to_cloud = 0\<rparr>,
         \<lparr>log_id = 12, timestamp = ''2025-01-01T00:20:00'', node_id = 1, bin_1_cycles = 7,
          bin_2_cycles = 10, bin_3_cycles = 20, sent_to_cloud = 0\<rparr>],
      fatigue_seq = 12, environment_log = [], environment_seq = 0\<rparr>"

definition http_replies :: "string \<Rightarrow> string list list" where
  "http_replies action_line =
     [[''+CREG: 0,1'', ''OK''], [''OK''], [''OK''], [''OK''], [''OK''], [''OK''], [''OK''],
      [''DOWNLOAD''], [''OK''], [''OK'', action_line], [''OK''], [''OK'']]"


definition comms_with :: "string list list \<Rightarrow> store \<Rightarrow> comms" where
  "comms_with script d =
     \<lparr>sim_manager = Some (Some \<lparr>replies = script, written = []\<rparr>), comm_db = d,
      comm_log = []\<rparr>"




text \<open>
  A fatigue table whose rows stand in ascending \<open>log_id\<close>, none above the
  \<open>AUTOINCREMENT\<close> counter.
\<close>

definition id_ordered :: "store \<Rightarrow> bool" where
  "id_ordered d =
     (sorted_wrt (<) (map log_id (fatigue_log d)) \<and>
      list_all (\<lambda>row. log_id row \<le> fatigue_seq d) (fatigue_log d))"

section \<open>The bus arbiter: exclusivity on every path\<close>

lemma enter_blocked_iff: "(enter w d hz opens speeds b = Blocked) = (lock b \<noteq> None)"
  by (auto simp: enter_def Let_def split: option.splits)

lemma enter_handle:
  "enter w d hz opens speeds b = Handle b1 \<Longrightarrow>
     lock b = None \<and> opens \<and> speeds \<and> lock b1 = Some w \<and> spi_is_open b1 \<and>
     trace b1 = trace b @ [Lock_acquired w, Spi_opened d, Speed_set hz]"
  by (auto simp: enter_def Let_def emit_def split: option.splits if_splits)

lemma enter_raised:
  "enter w d hz opens speeds b = Raised b1 \<Longrightarrow>
     lock b = None \<and> \<not> (opens \<and> speeds) \<and> lock b1 = None \<and>
     trace b1 = trace b @
       (if opens then [Lock_acquired w, Spi_opened d, Speed_failed, Lock_released,
                       Logged ERROR ''Failed to open SPI device'']
        else [Lock_acquired w, Spi_open_failed d, Lock_released,
              Logged ERROR ''Failed to open SPI device''])"
  by (auto simp: enter_def Let_def emit_def split: option.splits if_splits)

lemma exit_scope_held:
  "lock b = Some w \<Longrightarrow>
     exit_scope closes b =
       (None, b\<lparr>lock := None, spi_is_open := (if closes then False else spi_is_open b),
               trace := trace b @ (if closes then [Spi_closed, Lock_released]
                                   else [Spi_close_failed, Logged ERROR ''Error closing SPI device'',
                                         Lock_released])\<rparr>)"
  by (auto simp: exit_scope_def Let_def emit_def)

lemma with_spi_releases:
  assumes "lock (snd sc) = None" and "\<And>x. lock (snd (snd (body x))) = lock (snd x)"
  shows "case with_spi w d hz opens speeds closes body sc of
           None \<Rightarrow> False | Some (ex, s, b') \<Rightarrow> lock b' = None"
proof (cases "enter w d hz opens speeds (snd sc)")
  case Blocked
  with assms(1) show ?thesis by (simp add: enter_blocked_iff)
next
  case (Raised b1)
  then show ?thesis using enter_raised[OF Raised] by (simp add: with_spi_def)
next
  case (Handle b1)
  obtain ex s2 b2 where body: "body (fst sc, b1) = (ex, s2, b2)"
    by (cases "body (fst sc, b1)") auto
  have "lock b2 = Some w"
    using assms(2)[of "(fst sc, b1)"] body enter_handle[OF Handle] by simp
  then show ?thesis using Handle body
    by (simp add: with_spi_def exit_scope_held)
qed

text \<open>
  C5, as the code has it. \<open>__enter__\<close> does not return while another thread holds the
  lock. When it returns the handle, the caller holds the lock and the device is open.
  When it raises (the open failed, or setting the speed failed), the lock has been
  released before the error is logged and re-raised. \<open>__exit__\<close>, entered with the
  lock held, first calls \<open>close()\<close> and then releases the lock, and raises nothing
  itself: the device is closed when \<open>close()\<close> returns, and when \<open>close()\<close> raises
  the error is logged, the device stays as it was and the lock is released all the
  same. So a \<open>with\<close> block whose body leaves the lock alone ends with the lock free,
  whether the open failed, the body returned or the body raised.
\<close>

theorem bus_released_on_every_exit_path:
  "((enter w d hz opens speeds b = Blocked) = (lock b \<noteq> None)) \<and>
   (\<forall>b1. enter w d hz opens speeds b = Handle b1 \<longrightarrow>
      lock b = None \<and> lock b1 = Some w \<and> spi_is_open b1 \<and>
      trace b1 = trace b @ [Lock_acquired w, Spi_opened d, Speed_set hz]) \<and>
   (\<forall>b1. enter w d hz opens speeds b = Raised b1 \<longrightarrow>
      \<not> (opens \<and> speeds) \<and> lock b1 = None \<and>
      trace b1 = trace b @
        (if opens then [Lock_acquired w, Spi_opened d, Speed_failed, Lock_released,
                        Logged ERROR ''Failed to open SPI device'']
         else [Lock_acquired w, Spi_open_failed d, Lock_released,
               Logged ERROR ''Failed to open SPI device''])) \<and>
   (lock b = Some w \<longrightarrow>
      fst (exit_scope closes b) = None \<and> lock (snd (exit_scope closes b)) = None \<and>
      spi_is_open (snd (exit_scope closes b)) = (if closes then False else spi_is_open b) \<and>
      trace (snd (exit_scope closes b)) =
        trace b @ (if closes then [Spi_closed, Lock_released]
                   else [Spi_close_failed, Logged ERROR ''Error closing SPI device'',
                         Lock_released])) \<and>
   (lock b = None \<and> (\<forall>x. lock (snd (snd (body x))) = lock (snd x)) \<longrightarrow>
      (case with_spi w d hz opens speeds closes body (s, b) of
         None \<Rightarrow> False
       | Some (ex, s', b') \<Rightarrow> lock b' = None))"
proof (intro conjI allI impI)
  show "(enter w d hz opens speeds b = Blocked) = (lock b \<noteq> None)"
    by (rule enter_blocked_iff)
next
  fix b1 assume h: "enter w d hz opens speeds b = Handle b1"
  from enter_handle[OF h]
  show "lock b = None" "lock b1 = Some w" "spi_is_open b1"
    "trace b1 = trace b @ [Lock_acquired w, Spi_opened d, Speed_set hz]"
    by simp_all
next
  fix b1 assume r: "enter w d hz opens speeds b = Raised b1"
  from enter_raised[OF r]
  show "\<not> (opens \<and> speeds)" "lock b1 = None"
    "trace b1 = trace b @
        (if opens then [Lock_acquired w, Spi_opened d, Speed_failed, Lock_released,
                        Logged ERROR ''Failed to open SPI device'']
         else [Lock_acquired w, Spi_open_failed d, Lock_released,
               Logged ERROR ''Failed to open SPI device''])"
    by simp_all
next
  assume l: "lock b = Some w"
  show "fst (exit_scope closes b) = None" "lock (snd (exit_scope closes b)) = None"
    "spi_is_open (snd (exit_scope closes b)) = (if closes then False else spi_is_open b)"
    "trace (snd (exit_scope closes b)) =
        trace b @ (if closes then [Spi_closed, Lock_released]
                   else [Spi_close_failed, Logged ERROR ''Error closing SPI device'',
                         Lock_released])"
    by (simp_all add: exit_scope_held[OF l])
next
  assume a: "lock b = None \<and> (\<forall>x. lock (snd (snd (body x))) = lock (snd x))"
  from a have free: "lock (snd (s, b)) = None"
    by simp
  from a have kept: "\<And>x. lock (snd (snd (body x))) = lock (snd x)"
    by blast
  from free kept show "case with_spi w d hz opens speeds closes body (s, b) of
         None \<Rightarrow> False
       | Some (ex, s', b') \<Rightarrow> lock b' = None"
    by (rule with_spi_releases)
qed

text \<open>
  The theorem at a free bus: the primary ingestor gets the handle and holds the lock;
  a body that raises still ends with the device closed and then the lock released; an
  open that fails leaves the lock free.
\<close>

theorem bus_released_on_every_exit_path_witness:
  "lock \<lparr>lock = None, spi_is_open = False, trace = []\<rparr> = None \<and>
   enter LoRaWorker 0 8000000 True True \<lparr>lock = None, spi_is_open = False, trace = []\<rparr> =
     Handle \<lparr>lock = Some LoRaWorker, spi_is_open = True,
             trace = [Lock_acquired LoRaWorker, Spi_opened 0, Speed_set 8000000]\<rparr> \<and>
   enter LoRaWorker 0 8000000 False True \<lparr>lock = None, spi_is_open = False, trace = []\<rparr> =
     Raised \<lparr>lock = None, spi_is_open = False,
             trace = [Lock_acquired LoRaWorker, Spi_open_failed 0, Lock_released,
                      Logged ERROR ''Failed to open SPI device'']\<rparr> \<and>
   with_spi LoRaWorker 0 8000000 True True True (\<lambda>x. (Some IO_error, x))
       ((), \<lparr>lock = None, spi_is_open = False, trace = []\<rparr>) =
     Some (Some IO_error, (),
           \<lparr>lock = None, spi_is_open = False,
            trace = [Lock_acquired LoRaWorker, Spi_opened 0, Speed_set 8000000,
                     Spi_closed, Lock_released]\<rparr>) \<and>
   (case with_spi LoRaWorker 0 8000000 True True True (\<lambda>x. (Some IO_error, x))
           ((), \<lparr>lock = None, spi_is_open = False, trace = []\<rparr>) of
      None \<Rightarrow> False
    | Some (ex, s', b') \<Rightarrow> lock b' = None)"
  using bus_released_on_every_exit_path
          [of LoRaWorker 0 8000000 True True "\<lparr>lock = None, spi_is_open = False, trace = []\<rparr>"
              True "\<lambda>x. (Some IO_error, x)" "()"]
  by (simp add: enter_def with_spi_def exit_scope_def emit_def Let_def)

text \<open>
  C5 as the specification words it fails: the primary ingestor gets the handle, its
  block returns normally, and \<open>close()\<close> raises. \<open>__exit__\<close> logs the error and
  releases the lock: the scope is left with the lock free and the device still open,
  not closed.
\<close>

theorem device_left_open_when_close_fails:
  "with_spi LoRaWorker 0 8000000 True True False (\<lambda>x. (None, x))
       ((), \<lparr>lock = None, spi_is_open = False, trace = []\<rparr>) =
     Some (None, (),
           \<lparr>lock = None, spi_is_open = True,
            trace = [Lock_acquired LoRaWorker, Spi_opened 0, Speed_set 8000000,
                     Spi_close_failed, Logged ERROR ''Error closing SPI device'',
                     Lock_released]\<rparr>)"
  by (simp add: enter_def with_spi_def exit_scope_def emit_def Let_def)

section \<open>Decoding the two packet formats\<close>

lemma calcsize_lora: "calcsize lora_format = 24"
  by (simp add: calcsize_def lora_format_def)

lemma calcsize_nrf: "calcsize nrf_format = 5"
  by (simp add: calcsize_def nrf_format_def)

lemma list_of_length_5:
  "length xs = 5 \<Longrightarrow> \<exists>b0 b1 b2 b3 b4. xs = [b0, b1, b2, b3, b4]"
  by (auto simp: numeral_eq_Suc length_Suc_conv)

lemma list_of_length_24:
  "length xs = 24 \<Longrightarrow>
     \<exists>b0 b1 b2 b3 b4 b5 b6 b7 b8 b9 b10 b11 b12 b13 b14 b15 b16 b17 b18 b19 b20 b21 b22 b23.
       xs = [b0, b1, b2, b3, b4, b5, b6, b7, b8, b9, b10, b11, b12, b13, b14, b15, b16, b17,
             b18, b19, b20, b21, b22, b23]"
  by (auto simp: numeral_eq_Suc length_Suc_conv)

lemma sint_16: 
  assumes "0 \<le> x" and "x < 65536"
  shows "sint (word_of_int x :: 16 word) = (if x < 32768 then x else x - 65536)"
proof (cases "x < 32768")
  case True
  with assms have "(x + 32768) mod 65536 = x + 32768"
    by (simp add: mod_pos_pos_trivial)
  with True show ?thesis by (simp add: int_word_sint)
next
  case False
  have "x + 32768 = x - 32768 + 65536" by simp
  then have "(x + 32768) mod 65536 = (x - 32768 + 65536) mod 65536" by (simp only:)
  also have "\<dots> = (x - 32768) mod 65536" by (simp only: mod_add_self2)
  also have "\<dots> = x - 32768" using False assms by (simp add: mod_pos_pos_trivial)
  finally show ?thesis using False by (simp add: int_word_sint)
qed

lemma uint_byte_bounds: "0 \<le> uint (b :: byte) \<and> uint b < 256"
  using uint_bounded[of b] by simp

lemma u16_at_bounds: "0 \<le> u16_at bs i \<and> u16_at bs i < 65536"
  using uint_byte_bounds[of "bs ! i"] uint_byte_bounds[of "bs ! (i + 1)"]
  by (simp add: u16_at_def)

lemma unpack_nrf_5:
  assumes "length payload = 5"
  shows "struct_unpack nrf_format payload =
           Inr [V_int (uint (payload ! 0)), V_int (i16_at payload 1), V_int (u16_at payload 3)]"
proof -
  have s: "sint (word_of_int (u16_at payload 1) :: 16 word) = i16_at payload 1"
    using u16_at_bounds[of payload 1] by (simp add: sint_16 i16_at_def)
  from list_of_length_5[OF assms] obtain b0 b1 b2 b3 b4 where p: "payload = [b0, b1, b2, b3, b4]"
    by blast
  show ?thesis
    using s unfolding p
    by (simp add: struct_unpack_def calcsize_def nrf_format_def u16_at_def)
qed

lemma unpack_lora_24:
  assumes "length packet = 24"
  shows "struct_unpack lora_format packet =
           Inr [V_int (u16_at packet 0), V_int (uint (packet ! 2)),
                V_int (u32_at packet 3), V_int (u32_at packet 7), V_int (u32_at packet 11),
                V_float (word_of_int (u32_at packet 15)), V_float (word_of_int (u32_at packet 19)),
                V_int (uint (packet ! 23))]"
proof -
  from list_of_length_24[OF assms] obtain b0 b1 b2 b3 b4 b5 b6 b7 b8 b9 b10 b11 b12 b13 b14
      b15 b16 b17 b18 b19 b20 b21 b22 b23
    where p: "packet = [b0, b1, b2, b3, b4, b5, b6, b7, b8, b9, b10, b11, b12, b13, b14, b15, b16,
                     b17, b18, b19, b20, b21, b22, b23]"
    by (elim exE)
  show ?thesis
    unfolding p
    by (simp add: struct_unpack_def calcsize_def lora_format_def u16_at_def u32_at_def)
qed

section \<open>What the processor does with one packet\<close>

lemma check_alerting_rules_offers:
  "check_alerting_rules rules node data s =
     foldl offer_alert s (map (rendered node data) (filter (fires node data) rules))"
proof (induction rules arbitrary: s)
  case Nil
  show ?case by simp
next
  case (Cons r rs)
  show ?case
    by (simp add: Cons.IH fires_def rendered_def offer_alert_def put_q_def Let_def
             split: option.splits)
qed

lemma offer_alert_db [simp]: "db (offer_alert s m) = db s"
  by (simp add: offer_alert_def logging_def)

lemma offer_alert_db_calls [simp]: "db_calls (offer_alert s m) = db_calls s"
  by (simp add: offer_alert_def logging_def)

lemma foldl_offer_db [simp]: "db (foldl offer_alert s ms) = db s"
  by (induction ms arbitrary: s) simp_all

lemma foldl_offer_db_calls [simp]: "db_calls (foldl offer_alert s ms) = db_calls s"
  by (induction ms arbitrary: s) simp_all

lemma offer_alert_maxsize [simp]: "maxsize (alert_q (offer_alert s m)) = maxsize (alert_q s)"
  by (simp add: offer_alert_def logging_def)

lemma offer_alert_items:
  "items (alert_q (offer_alert s m)) =
     (if q_full (alert_q s) then items (alert_q s) else items (alert_q s) @ [m])"
  by (simp add: offer_alert_def logging_def)

lemma foldl_offer_items:
  "items (alert_q (foldl offer_alert s ms)) =
     items (alert_q s) @
       (if maxsize (alert_q s) = 0 then ms
        else take (maxsize (alert_q s) - length (items (alert_q s))) ms)"
proof (induction ms arbitrary: s)
  case Nil
  show ?case by simp
next
  case (Cons m ms)
  have step: "items (alert_q (foldl offer_alert s (m # ms))) =
     items (alert_q (offer_alert s m)) @
       (if maxsize (alert_q s) = 0 then ms
        else take (maxsize (alert_q s) - length (items (alert_q (offer_alert s m)))) ms)"
    using Cons.IH[of "offer_alert s m"] by simp
  show ?case
  proof (cases "q_full (alert_q s)")
    case True
    then show ?thesis
      unfolding step by (simp add: offer_alert_items q_full_def)
  next
    case False
    then show ?thesis
      unfolding step by (auto simp add: offer_alert_items q_full_def take_Cons' )
  qed
qed

lemma offer_alert_room:
  "\<not> q_full (alert_q s) \<Longrightarrow>
     alert_q (offer_alert s m) = (alert_q s)\<lparr>items := items (alert_q s) @ [m]\<rparr> \<and>
     log_records (offer_alert s m) = log_records s @ [(WARNING, ''ALERT TRIGGERED: '' @ m)]"
  by (simp add: offer_alert_def logging_def)

lemma offer_alert_full:
  "q_full (alert_q s) \<Longrightarrow>
     alert_q (offer_alert s m) = alert_q s \<and>
     log_records (offer_alert s m) =
       log_records s @ [(ERROR, ''Alert queue is full. Cannot send new alert.'')]"
  by (simp add: offer_alert_def logging_def)

lemma fires_iff:
  "fires n d r = (rule_node_id r = n \<and> (\<exists>v. d (field_to_monitor r) = Some v \<and> threshold r < v))"
  by (auto simp: fires_def split: option.splits)

lemma committed_alert_q [simp]: "alert_q (committed_fatigue e packet s) = alert_q s"
  by (simp add: committed_fatigue_def logging_def)

lemma check_rules_db [simp]: "db (check_alerting_rules rules node data s) = db s"
  by (simp add: check_alerting_rules_offers)

lemma check_rules_db_calls [simp]:
  "db_calls (check_alerting_rules rules node data s) = db_calls s"
  by (simp add: check_alerting_rules_offers)

lemma process_lora_24:
  assumes "length packet = 24"
  shows "process_lora_packet rules e packet s =
     (if insert_ok e \<and> commit_ok e then
        (None, check_alerting_rules rules (u16_at packet 0)
                 (bins_dict (u32_at packet 3) (u32_at packet 7) (u32_at packet 11))
                 (committed_fatigue e packet s))
      else (if rollback_ok e then None else Some Sqlite3_error,
            failed_insert ''Database error for fatigue_log'' e s))"
  by (simp add: process_lora_packet_def unpack_lora_24[OF assms] execute_and_commit_def
        rollback_def logging_def Let_def committed_fatigue_def failed_insert_def)

lemma process_lora_not_24:
  assumes "length packet \<noteq> 24"
  shows "process_lora_packet rules e packet s =
           (None, logging ERROR ''Failed to unpack LoRa packet'' s)"
  using assms by (simp add: process_lora_packet_def struct_unpack_def calcsize_lora)

lemma process_nrf_5:
  assumes "length payload = 5"
  shows "process_nrf_packet e payload s =
     (if insert_ok e \<and> commit_ok e then
        (None, logging INFO ''Logged environment data''
                 (s\<lparr>db_calls := db_calls s @ [Execute_insert, Commit],
                    db := insert_environment_row (now e) (uint (payload ! 0))
                            (real_of_int (i16_at payload 1) / 100)
                            (real_of_int (u16_at payload 3) / 100) (db s)\<rparr>))
      else (if rollback_ok e then None else Some Sqlite3_error,
            failed_insert ''Database error for environment_log'' e s))"
  using assms
  by (simp add: process_nrf_packet_def unpack_nrf_5[OF assms] execute_and_commit_def
        rollback_def logging_def Let_def failed_insert_def)

lemma process_nrf_not_5:
  assumes "length payload \<noteq> 5"
  shows "process_nrf_packet e payload s =
           (None, logging WARNING ''Received nRF packet of incorrect length'' s)"
  using assms by (simp add: process_nrf_packet_def)

lemmas eval_defs =
  scenario_1_packet_def scenario_2_rule_def scenario_3_packet_def env_ok_def
  processor_init_def empty_store_def thread_init_def committed_fatigue_def failed_insert_def
  u16_at_def u32_at_def i16_at_def bins_dict_def format_message_def str_int_def str_nat.simps
  put_q_def q_full_def q_empty_def get_nowait_def logging_def Let_def offer_alert_def
  fires_def rendered_def insert_fatigue_row_def insert_environment_row_def

subsection \<open>Primary packets\<close>

text \<open>
  C3, as the code has it. The format \<open>'<H B III f f B'\<close> is 2 + 1 + 4 + 4 + 4 + 4 + 4 + 1
  = 24 bytes. A primary packet of exactly 24 bytes is unpacked little-endian into
  (u16 node_id, u8, u32 bin1, u32 bin2, u32 bin3, f32, f32, u8) and, when the store
  takes the insert and the commit, exactly one fatigue row with that node, those bins
  and \<open>sent_to_cloud = 0\<close> is added. A primary packet of any other length is discarded:
  an error is logged and nothing else changes, so no fatigue row is written.
\<close>

theorem primary_packet_is_24_bytes:
  "calcsize lora_format = 24 \<and>
   (length packet = 24 \<longrightarrow>
      struct_unpack lora_format packet =
        Inr [V_int (u16_at packet 0), V_int (uint (packet ! 2)),
             V_int (u32_at packet 3), V_int (u32_at packet 7), V_int (u32_at packet 11),
             V_float (word_of_int (u32_at packet 15)), V_float (word_of_int (u32_at packet 19)),
             V_int (uint (packet ! 23))] \<and>
      (insert_ok e \<and> commit_ok e \<longrightarrow>
         fst (process_lora_packet rules e packet s) = None \<and>
         fatigue_log (db (snd (process_lora_packet rules e packet s))) =
           fatigue_log (db s) @ [fatigue_row_of e packet (db s)])) \<and>
   (length packet \<noteq> 24 \<longrightarrow>
      process_lora_packet rules e packet s =
        (None, s\<lparr>log_records := log_records s @ [(ERROR, ''Failed to unpack LoRa packet'')]\<rparr>))"
  by (simp add: calcsize_lora unpack_lora_24 process_lora_24 process_lora_not_24
        committed_fatigue_def logging_def insert_fatigue_row_def fatigue_row_of_def)

text \<open>
  The theorem at the packet of scenario 1 (24 bytes: node 1, bins 5, 10, 20) and at its
  first 23 bytes.
\<close>

theorem primary_packet_is_24_bytes_witness:
  "length scenario_1_packet = 24 \<and> insert_ok env_ok \<and> commit_ok env_ok \<and>
   fatigue_log (db (snd (process_lora_packet [] env_ok scenario_1_packet processor_init))) =
     [\<lparr>log_id = 1, timestamp = ''2025-01-01T00:00:00'', node_id = 1, bin_1_cycles = 5,
       bin_2_cycles = 10, bin_3_cycles = 20, sent_to_cloud = 0\<rparr>] \<and>
   length (take 23 scenario_1_packet) \<noteq> 24 \<and>
   process_lora_packet [] env_ok (take 23 scenario_1_packet) processor_init =
     (None, processor_init\<lparr>log_records := [(ERROR, ''Failed to unpack LoRa packet'')]\<rparr>)"
  using primary_packet_is_24_bytes [of scenario_1_packet env_ok "[]" processor_init]
        primary_packet_is_24_bytes [of "take 23 scenario_1_packet" env_ok "[]" processor_init]
  by (simp add: scenario_1_packet_def env_ok_def processor_init_def empty_store_def
        fatigue_row_of_def u16_at_def u32_at_def)

text \<open>
  C3 as the specification words it fails: the first 20 bytes of the packet of scenario 1
  are a primary packet of exactly 20 bytes, and the processor discards it with a logged
  error; the 24 bytes of the scenario, a packet of another length than 20, are stored.
\<close>

theorem twenty_byte_primary_packet_is_discarded:
  "length (take 20 scenario_1_packet) = 20 \<and>
   process_lora_packet [] env_ok (take 20 scenario_1_packet) processor_init =
     (None, processor_init\<lparr>log_records := [(ERROR, ''Failed to unpack LoRa packet'')]\<rparr>) \<and>
   length scenario_1_packet = 24 \<and>
   fatigue_log (db (snd (process_lora_packet [] env_ok scenario_1_packet processor_init))) =
     [\<lparr>log_id = 1, timestamp = ''2025-01-01T00:00:00'', node_id = 1, bin_1_cycles = 5,
       bin_2_cycles = 10, bin_3_cycles = 20, sent_to_cloud = 0\<rparr>]"
  by (simp add: process_lora_24 process_lora_not_24 scenario_1_packet_def env_ok_def
        processor_init_def empty_store_def committed_fatigue_def logging_def
        insert_fatigue_row_def u16_at_def u32_at_def)

subsection \<open>Scout packets\<close>

text \<open>
  C6, as the code has it. A scout packet of exactly 5 bytes is unpacked little-endian
  into (u8 node_id, signed i16 temperature, unsigned u16 humidity); both readings are
  divided by 100. When the store takes the insert and the commit, exactly one
  environment row with these values is added. When the insert or the commit raises a
  database error, the transaction is rolled back, an error is logged and the store is
  as before. A scout packet of any other length is discarded: a warning is logged and
  nothing else changes.
\<close>

theorem scout_packet_decoded_and_stored:
  "(length payload = 5 \<longrightarrow>
      struct_unpack nrf_format payload =
        Inr [V_int (uint (payload ! 0)), V_int (i16_at payload 1), V_int (u16_at payload 3)] \<and>
      (insert_ok e \<and> commit_ok e \<longrightarrow>
         fst (process_nrf_packet e payload s) = None \<and>
         environment_log (db (snd (process_nrf_packet e payload s))) =
           environment_log (db s) @ [environment_row_of e payload (db s)]) \<and>
      (\<not> (insert_ok e \<and> commit_ok e) \<longrightarrow>
         db (snd (process_nrf_packet e payload s)) = db s \<and>
         log_records (snd (process_nrf_packet e payload s)) =
           log_records s @ [(ERROR, ''Database error for environment_log'')] \<and>
         db_calls (snd (process_nrf_packet e payload s)) =
           db_calls s @ (if insert_ok e then [Execute_insert, Commit, Rollback]
                         else [Execute_insert, Rollback]))) \<and>
   (length payload \<noteq> 5 \<longrightarrow>
      process_nrf_packet e payload s =
        (None, s\<lparr>log_records := log_records s @
                  [(WARNING, ''Received nRF packet of incorrect length'')]\<rparr>))"
  by (simp add: unpack_nrf_5 process_nrf_5 process_nrf_not_5 logging_def failed_insert_def
        insert_environment_row_def environment_row_of_def)

text \<open>
  The theorem at the packet of scenario 3 (node 42, 5.00 degrees, 18.00 percent), at a
  packet of 6 bytes, and at the same packet with a commit that fails.
\<close>

theorem scout_packet_decoded_and_stored_witness:
  "length scenario_3_packet = 5 \<and> insert_ok env_ok \<and> commit_ok env_ok \<and>
   environment_log (db (snd (process_nrf_packet env_ok scenario_3_packet processor_init))) =
     [\<lparr>env_log_id = 1, received_at = ''2025-01-01T00:00:00'', env_node_id = 42,
       temperature_c = 5, humidity_rh = 18\<rparr>] \<and>
   length (scenario_3_packet @ [0]) \<noteq> 5 \<and>
   process_nrf_packet env_ok (scenario_3_packet @ [0]) processor_init =
     (None, processor_init\<lparr>log_records :=
              [(WARNING, ''Received nRF packet of incorrect length'')]\<rparr>) \<and>
   \<not> (insert_ok (env_ok\<lparr>commit_ok := False\<rparr>) \<and> commit_ok (env_ok\<lparr>commit_ok := False\<rparr>)) \<and>
   db (snd (process_nrf_packet (env_ok\<lparr>commit_ok := False\<rparr>) scenario_3_packet processor_init))
     = empty_store"
  using scout_packet_decoded_and_stored [of scenario_3_packet env_ok processor_init]
        scout_packet_decoded_and_stored [of "scenario_3_packet @ [0]" env_ok processor_init]
        scout_packet_decoded_and_stored
          [of scenario_3_packet "env_ok\<lparr>commit_ok := False\<rparr>" processor_init]
  by (simp add: scenario_3_packet_def env_ok_def processor_init_def empty_store_def
        environment_row_of_def u16_at_def i16_at_def)

text \<open>
  C6 as the specification words it fails: the packet of scenario 3 has exactly 5 bytes,
  the INSERT raises \<open>sqlite3.Error\<close>, and no environment row is written.
\<close>

theorem scout_row_missing_when_store_fails:
  "length scenario_3_packet = 5 \<and>
   process_nrf_packet (env_ok\<lparr>insert_ok := False\<rparr>) scenario_3_packet processor_init =
     (None, processor_init\<lparr>log_records := [(ERROR, ''Database error for environment_log'')],
                           db_calls := [Execute_insert, Rollback]\<rparr>) \<and>
   environment_log
     (db (snd (process_nrf_packet (env_ok\<lparr>insert_ok := False\<rparr>) scenario_3_packet
                 processor_init))) = []"
  by (simp add: process_nrf_5 scenario_3_packet_def env_ok_def processor_init_def
        empty_store_def failed_insert_def)

subsection \<open>Alert rules\<close>

text \<open>
  C7, as the code has it. For a primary packet whose fatigue row was committed, the
  processor goes through the rules in order and, for exactly the rules that fire,
  renders the message and puts it on the alert queue without blocking. A rule fires
  when its node identifier equals the packet's and the monitored field names one of
  the three bins whose value is strictly greater than the threshold; a value equal to
  the threshold does not fire. The put adds the message to the queue and logs a
  warning when the queue has room; when the queue is full the message is dropped and
  an error is logged. So the queue afterwards holds, after what it held, the messages
  of the firing rules as far as its capacity allows.
\<close>

theorem alert_offered_iff_rule_fires:
  "(length packet = 24 \<and> insert_ok e \<and> commit_ok e \<longrightarrow>
      snd (process_lora_packet rules e packet s) =
        foldl offer_alert (committed_fatigue e packet s)
          (map (rendered (u16_at packet 0)
                  (bins_dict (u32_at packet 3) (u32_at packet 7) (u32_at packet 11)))
             (filter (fires (u16_at packet 0)
                        (bins_dict (u32_at packet 3) (u32_at packet 7) (u32_at packet 11)))
                rules)) \<and>
      items (alert_q (snd (process_lora_packet rules e packet s))) =
        items (alert_q s) @
          (if maxsize (alert_q s) = 0 then id
           else take (maxsize (alert_q s) - length (items (alert_q s))))
            (map (rendered (u16_at packet 0)
                    (bins_dict (u32_at packet 3) (u32_at packet 7) (u32_at packet 11)))
               (filter (fires (u16_at packet 0)
                          (bins_dict (u32_at packet 3) (u32_at packet 7) (u32_at packet 11)))
                  rules))) \<and>
   fires n d r =
     (rule_node_id r = n \<and> (\<exists>v. d (field_to_monitor r) = Some v \<and> threshold r < v)) \<and>
   (d (field_to_monitor r) = Some (threshold r) \<longrightarrow> \<not> fires n d r) \<and>
   (d (field_to_monitor r) = Some v \<longrightarrow>
      rendered n d r = format_message (alert_message r) n v (threshold r)) \<and>
   (\<not> q_full (alert_q s) \<longrightarrow>
      alert_q (offer_alert s m) = (alert_q s)\<lparr>items := items (alert_q s) @ [m]\<rparr> \<and>
      log_records (offer_alert s m) = log_records s @ [(WARNING, ''ALERT TRIGGERED: '' @ m)]) \<and>
   (q_full (alert_q s) \<longrightarrow>
      alert_q (offer_alert s m) = alert_q s \<and>
      log_records (offer_alert s m) =
        log_records s @ [(ERROR, ''Alert queue is full. Cannot send new alert.'')])"
proof (intro conjI impI)
  assume a: "length packet = 24 \<and> insert_ok e \<and> commit_ok e"
  then show p: "snd (process_lora_packet rules e packet s) =
        foldl offer_alert (committed_fatigue e packet s)
          (map (rendered (u16_at packet 0)
                  (bins_dict (u32_at packet 3) (u32_at packet 7) (u32_at packet 11)))
             (filter (fires (u16_at packet 0)
                        (bins_dict (u32_at packet 3) (u32_at packet 7) (u32_at packet 11)))
                rules))"
    by (simp add: process_lora_24 check_alerting_rules_offers)
  show "items (alert_q (snd (process_lora_packet rules e packet s))) =
        items (alert_q s) @
          (if maxsize (alert_q s) = 0 then id
           else take (maxsize (alert_q s) - length (items (alert_q s))))
            (map (rendered (u16_at packet 0)
                    (bins_dict (u32_at packet 3) (u32_at packet 7) (u32_at packet 11)))
               (filter (fires (u16_at packet 0)
                          (bins_dict (u32_at packet 3) (u32_at packet 7) (u32_at packet 11)))
                  rules))"
    unfolding p by (simp add: foldl_offer_items)
next
  show "fires n d r =
     (rule_node_id r = n \<and> (\<exists>v. d (field_to_monitor r) = Some v \<and> threshold r < v))"
    by (rule fires_iff)
next
  assume "d (field_to_monitor r) = Some (threshold r)"
  then show "\<not> fires n d r" by (simp add: fires_def)
next
  assume "d (field_to_monitor r) = Some v"
  then show "rendered n d r = format_message (alert_message r) n v (threshold r)"
    by (simp add: rendered_def)
next
  assume "\<not> q_full (alert_q s)"
  then show "alert_q (offer_alert s m) = (alert_q s)\<lparr>items := items (alert_q s) @ [m]\<rparr>"
    "log_records (offer_alert s m) = log_records s @ [(WARNING, ''ALERT TRIGGERED: '' @ m)]"
    by (simp_all add: offer_alert_room)
next
  assume "q_full (alert_q s)"
  then show "alert_q (offer_alert s m) = alert_q s"
    "log_records (offer_alert s m) =
        log_records s @ [(ERROR, ''Alert queue is full. Cannot send new alert.'')]"
    by (simp_all add: offer_alert_full)
qed

text \<open>
  The theorem at scenario 2: node 1 with bin 3 at 20 fires the rule with threshold 15
  and the alert \<open>N1 val20 thr15\<close> is queued; bin 3 at 15 and node 2 do not fire.
\<close>

theorem alert_offered_iff_rule_fires_witness:
  "length scenario_1_packet = 24 \<and> insert_ok env_ok \<and> commit_ok env_ok \<and>
   fires 1 (bins_dict 5 10 20) scenario_2_rule \<and>
   \<not> fires 1 (bins_dict 5 10 15) scenario_2_rule \<and>
   bins_dict 5 10 15 (field_to_monitor scenario_2_rule) = Some (threshold scenario_2_rule) \<and>
   \<not> fires 2 (bins_dict 5 10 20) scenario_2_rule \<and>
   \<not> q_full (alert_q processor_init) \<and>
   items (alert_q (snd (process_lora_packet [scenario_2_rule] env_ok scenario_1_packet
                          processor_init))) = [''N1 val20 thr15''] \<and>
   q_full \<lparr>items = replicate 50 ''queued'', maxsize = 50\<rparr>"
  using alert_offered_iff_rule_fires
          [of scenario_1_packet env_ok "[scenario_2_rule]" processor_init 1 "bins_dict 5 10 15"
              scenario_2_rule 15 "''x''"]
        alert_offered_iff_rule_fires
          [of scenario_1_packet env_ok "[scenario_2_rule]"
              "processor_init\<lparr>alert_q := \<lparr>items = replicate 50 ''queued'', maxsize = 50\<rparr>\<rparr>"
              1 "bins_dict 5 10 15" scenario_2_rule 15 "''x''"]
  by (simp add: eval_defs)

text \<open>
  C7 as the specification words it fails: the row of scenario 2 is committed, the
  rule's node equals the packet's and bin 3 is above the threshold, but the alert
  queue already holds its 50 messages, so no alert is enqueued: the queue is as
  before and an error is logged.
\<close>

theorem alert_dropped_when_queue_full:
  "length scenario_1_packet = 24 \<and>
   rule_node_id scenario_2_rule = u16_at scenario_1_packet 0 \<and>
   field_to_monitor scenario_2_rule = ''bin_3_cycles'' \<and>
   threshold scenario_2_rule < u32_at scenario_1_packet 11 \<and>
   fatigue_log (db (snd (process_lora_packet [scenario_2_rule] env_ok scenario_1_packet
      (processor_init\<lparr>alert_q := \<lparr>items = replicate 50 ''queued'', maxsize = 50\<rparr>\<rparr>)))) =
     [\<lparr>log_id = 1, timestamp = ''2025-01-01T00:00:00'', node_id = 1, bin_1_cycles = 5,
       bin_2_cycles = 10, bin_3_cycles = 20, sent_to_cloud = 0\<rparr>] \<and>
   alert_q (snd (process_lora_packet [scenario_2_rule] env_ok scenario_1_packet
      (processor_init\<lparr>alert_q := \<lparr>items = replicate 50 ''queued'', maxsize = 50\<rparr>\<rparr>))) =
     \<lparr>items = replicate 50 ''queued'', maxsize = 50\<rparr> \<and>
   log_records (snd (process_lora_packet [scenario_2_rule] env_ok scenario_1_packet
      (processor_init\<lparr>alert_q := \<lparr>items = replicate 50 ''queued'', maxsize = 50\<rparr>\<rparr>))) =
     [(INFO, ''Logged fatigue data''),
      (ERROR, ''Alert queue is full. Cannot send new alert.'')]"
  by (simp add: process_lora_24 eval_defs)

subsection \<open>Database errors\<close>

text \<open>
  C8. When the insert or the commit of a fatigue row fails, the processor calls
  rollback, logs the database error and returns without evaluating a rule: the store
  and the alert queue are as before and the log gains only the database error. In the
  loop the packet is gone from the high-priority queue and the thread goes on with the
  rest of the queue (when the rollback itself raises, the loop's handler logs it and
  the outer loop starts over). A step of the loop stops the thread only when the
  shutdown event is set at the test of the outer loop.
\<close>

theorem database_error_skips_packet:
  "(length packet = 24 \<and> \<not> (insert_ok e \<and> commit_ok e) \<longrightarrow>
      db (snd (process_lora_packet rules e packet s)) = db s \<and>
      alert_q (snd (process_lora_packet rules e packet s)) = alert_q s \<and>
      log_records (snd (process_lora_packet rules e packet s)) =
        log_records s @ [(ERROR, ''Database error for fatigue_log'')] \<and>
      db_calls (snd (process_lora_packet rules e packet s)) =
        db_calls s @ (if insert_ok e then [Execute_insert, Commit, Rollback]
                      else [Execute_insert, Rollback]) \<and>
      fst (process_lora_packet rules e packet s) =
        (if rollback_ok e then None else Some Sqlite3_error)) \<and>
   (pc t = High_test \<and> items (high_prio_q t) = packet # rest \<and> length packet = 24 \<and>
    \<not> (insert_ok e \<and> commit_ok e) \<longrightarrow>
      pc (run_step rules e t) = (if rollback_ok e then High_test else Outer_test) \<and>
      items (high_prio_q (run_step rules e t)) = rest \<and>
      low_prio_q (run_step rules e t) = low_prio_q t \<and>
      served (run_step rules e t) = served t @ [(High, packet)] \<and>
      db (core (run_step rules e t)) = db (core t) \<and>
      alert_q (core (run_step rules e t)) = alert_q (core t)) \<and>
   (pc (run_step rules e t) = Stopped \<longrightarrow>
      pc t = Stopped \<or> (pc t = Outer_test \<and> shutdown_event t))"
proof (intro conjI impI)
  assume a: "length packet = 24 \<and> \<not> (insert_ok e \<and> commit_ok e)"
  then have p: "process_lora_packet rules e packet s =
      (if rollback_ok e then None else Some Sqlite3_error,
       failed_insert ''Database error for fatigue_log'' e s)"
    by (auto simp: process_lora_24)
  show "db (snd (process_lora_packet rules e packet s)) = db s"
    "alert_q (snd (process_lora_packet rules e packet s)) = alert_q s"
    "log_records (snd (process_lora_packet rules e packet s)) =
        log_records s @ [(ERROR, ''Database error for fatigue_log'')]"
    "db_calls (snd (process_lora_packet rules e packet s)) =
        db_calls s @ (if insert_ok e then [Execute_insert, Commit, Rollback]
                      else [Execute_insert, Rollback])"
    "fst (process_lora_packet rules e packet s) =
        (if rollback_ok e then None else Some Sqlite3_error)"
    unfolding p by (simp_all add: failed_insert_def)
next
  assume a: "pc t = High_test \<and> items (high_prio_q t) = packet # rest \<and> length packet = 24 \<and>
    \<not> (insert_ok e \<and> commit_ok e)"
  then have p: "process_lora_packet rules e packet (core t) =
      (if rollback_ok e then None else Some Sqlite3_error,
       failed_insert ''Database error for fatigue_log'' e (core t))"
    by (auto simp: process_lora_24)
  have r: "run_step rules e t =
      after_item High packet (process_lora_packet rules e packet (core t))
        (t\<lparr>high_prio_q := (high_prio_q t)\<lparr>items := rest\<rparr>\<rparr>)"
    using a by (simp add: run_step_def q_empty_def get_nowait_def)
  show "pc (run_step rules e t) = (if rollback_ok e then High_test else Outer_test)"
    "items (high_prio_q (run_step rules e t)) = rest"
    "low_prio_q (run_step rules e t) = low_prio_q t"
    "served (run_step rules e t) = served t @ [(High, packet)]"
    "db (core (run_step rules e t)) = db (core t)"
    "alert_q (core (run_step rules e t)) = alert_q (core t)"
    unfolding r p using a by (simp_all add: after_item_def failed_insert_def logging_def)
next
  assume "pc (run_step rules e t) = Stopped"
  then show "pc t = Stopped \<or> (pc t = Outer_test \<and> shutdown_event t)"
    by (auto simp: run_step_def after_item_def
             split: pc.splits option.splits prod.splits if_splits)
qed

text \<open>
  The theorem with two copies of the packet of scenario 1 in the high-priority queue:
  the commit of the first fails, the second is stored and raises its alert.
\<close>

theorem database_error_skips_packet_witness:
  "length scenario_1_packet = 24 \<and>
   \<not> (insert_ok (env_ok\<lparr>commit_ok := False\<rparr>) \<and> commit_ok (env_ok\<lparr>commit_ok := False\<rparr>)) \<and>
   process_lora_packet [scenario_2_rule] (env_ok\<lparr>commit_ok := False\<rparr>) scenario_1_packet
       processor_init =
     (None, processor_init\<lparr>log_records := [(ERROR, ''Database error for fatigue_log'')],
                           db_calls := [Execute_insert, Commit, Rollback]\<rparr>) \<and>
   pc (run_step [scenario_2_rule] (env_ok\<lparr>commit_ok := False\<rparr>)
         (thread_init\<lparr>pc := High_test,
            high_prio_q := \<lparr>items = [scenario_1_packet, scenario_1_packet], maxsize = 100\<rparr>\<rparr>))
     = High_test \<and>
   fatigue_log (db (core (run [scenario_2_rule] [Step (env_ok\<lparr>commit_ok := False\<rparr>), Step env_ok]
         (thread_init\<lparr>pc := High_test,
            high_prio_q := \<lparr>items = [scenario_1_packet, scenario_1_packet], maxsize = 100\<rparr>\<rparr>))))
     = [\<lparr>log_id = 1, timestamp = ''2025-01-01T00:00:00'', node_id = 1, bin_1_cycles = 5,
         bin_2_cycles = 10, bin_3_cycles = 20, sent_to_cloud = 0\<rparr>] \<and>
   served (run [scenario_2_rule] [Step (env_ok\<lparr>commit_ok := False\<rparr>), Step env_ok]
         (thread_init\<lparr>pc := High_test,
            high_prio_q := \<lparr>items = [scenario_1_packet, scenario_1_packet], maxsize = 100\<rparr>\<rparr>))
     = [(High, scenario_1_packet), (High, scenario_1_packet)]"
  using database_error_skips_packet
          [of scenario_1_packet "env_ok\<lparr>commit_ok := False\<rparr>" "[scenario_2_rule]" processor_init
              "thread_init\<lparr>pc := High_test,
                 high_prio_q := \<lparr>items = [scenario_1_packet, scenario_1_packet],
                                 maxsize = 100\<rparr>\<rparr>"
              "[scenario_1_packet]"]
  by (simp add: run_def run_step_def after_item_def process_lora_24 eval_defs)

subsection \<open>Strict priority\<close>

lemma after_item_returned:
  "after_item tr pkt (None, c) t =
     t\<lparr>core := c, processed_something := True, served := served t @ [(tr, pkt)]\<rparr>"
  by (simp add: after_item_def)

lemma after_item_served: "served (after_item tr pkt res t) = served t @ [(tr, pkt)]"
  by (simp add: after_item_def split: prod.splits option.splits)

text \<open>
  The low loop is left early only by an exception. With the store of the started
  thread a scout packet of 5 bytes fails in its insert and again in \<open>rollback()\<close>; that
  exception leaves \<open>_process_nrf_packet\<close> and both loops, and the outer loop starts
  over with the high-priority queue: a primary packet that arrived meanwhile is then
  served before the second scout packet.
\<close>

lemma exception_in_low_loop_restarts_outer_loop:
  "served
     (run rules [Arrive Low scenario_3_packet, Arrive Low scout_packet_43,
              Step store_of_other_thread, Step store_of_other_thread,
              Step store_of_other_thread,
              Arrive High scenario_1_packet,
              Step store_of_other_thread, Step store_of_other_thread,
              Step store_of_other_thread, Step store_of_other_thread,
              Step store_of_other_thread] thread_init) =
     [(Low, scenario_3_packet), (High, scenario_1_packet), (Low, scout_packet_43)]"
  by (simp add: run_def run_step_def after_item_def offer_def process_lora_24 process_nrf_5
        scout_packet_43_def store_of_other_thread_def eval_defs)

text \<open>
  C2 at a failing input. Two scout payloads of 4 bytes are queued and the
  high-priority queue is empty; the processor takes the first one and discards it for
  its length, which raises nothing and calls nothing of the store; a primary packet
  arrives. The next step of the loop takes the second scout payload while the primary
  packet waits in the high-priority queue; the primary packet is served only after the
  low-priority queue has been drained and the outer loop has started over. This holds
  for every list of rules and whatever the store does at each step (\<open>e1\<close> to \<open>e7\<close>),
  the store of the started thread included.
\<close>

theorem low_priority_drain_delays_high_priority:
  "high_prio_q
     (run rules [Arrive Low scout_fragment_42, Arrive Low scout_fragment_43,
              Step e1, Step e2, Step e3,
              Arrive High scenario_1_packet] thread_init) =
     \<lparr>items = [scenario_1_packet], maxsize = 100\<rparr> \<and>
   low_prio_q
     (run rules [Arrive Low scout_fragment_42, Arrive Low scout_fragment_43,
              Step e1, Step e2, Step e3,
              Arrive High scenario_1_packet] thread_init) =
     \<lparr>items = [scout_fragment_43], maxsize = 500\<rparr> \<and>
   served
     (run rules [Arrive Low scout_fragment_42, Arrive Low scout_fragment_43,
              Step e1, Step e2, Step e3,
              Arrive High scenario_1_packet] thread_init) =
     [(Low, scout_fragment_42)] \<and>
   served
     (run rules [Arrive Low scout_fragment_42, Arrive Low scout_fragment_43,
              Step e1, Step e2, Step e3,
              Arrive High scenario_1_packet,
              Step e4] thread_init) =
     [(Low, scout_fragment_42), (Low, scout_fragment_43)] \<and>
   high_prio_q
     (run rules [Arrive Low scout_fragment_42, Arrive Low scout_fragment_43,
              Step e1, Step e2, Step e3,
              Arrive High scenario_1_packet,
              Step e4] thread_init) =
     \<lparr>items = [scenario_1_packet], maxsize = 100\<rparr> \<and>
   served
     (run rules [Arrive Low scout_fragment_42, Arrive Low scout_fragment_43,
              Step e1, Step e2, Step e3,
              Arrive High scenario_1_packet,
              Step e4, Step e5, Step e6, Step e7] thread_init) =
     [(Low, scout_fragment_42), (Low, scout_fragment_43), (High, scenario_1_packet)]"
  by (simp add: run_def run_step_def after_item_returned after_item_served offer_def
        process_nrf_not_5 scout_fragment_42_def scout_fragment_43_def
        thread_init_def put_q_def q_full_def q_empty_def get_nowait_def)

section \<open>The archiver: write, then delete\<close>

lemma arch_logging_fields [simp]:
  "arch_db (arch_logging l m a) = arch_db a"
  "archive_files (arch_logging l m a) = archive_files a"
  "effects (arch_logging l m a) = effects a"
  by (simp_all add: arch_logging_def)

lemma archive_effects:
  "effects (archive_and_purge e a) =
     effects a @
       (if reaches_select e \<and> select_old (cutoff_date e) (arch_db a) \<noteq> [] then
          (case write_failure e of
             Some k \<Rightarrow> [File_broken (take k (select_old (cutoff_date e) (arch_db a)))]
           | None \<Rightarrow>
               if delete_ok e
               then [File_closed (select_old (cutoff_date e) (arch_db a)),
                     Rows_deleted (select_old (cutoff_date e) (arch_db a))]
               else [File_closed (select_old (cutoff_date e) (arch_db a))])
        else [])"
  by (simp add: archive_and_purge_def reaches_select_def Let_def split: option.splits)

lemma archive_files_after:
  "archive_files (archive_and_purge e a) =
     archive_files a @
       (if reaches_select e \<and> select_old (cutoff_date e) (arch_db a) \<noteq> [] then
          [case write_failure e of
             Some k \<Rightarrow> take k (select_old (cutoff_date e) (arch_db a))
           | None \<Rightarrow> select_old (cutoff_date e) (arch_db a)]
        else [])"
  by (simp add: archive_and_purge_def reaches_select_def Let_def split: option.splits)

lemma archive_db_after:
  "arch_db (archive_and_purge e a) =
     (if reaches_select e \<and> select_old (cutoff_date e) (arch_db a) \<noteq> [] \<and>
         write_failure e = None \<and> delete_ok e
      then delete_old (cutoff_date e) (arch_db a) else arch_db a)"
  by (simp add: archive_and_purge_def reaches_select_def Let_def split: option.splits)

lemma archived_rows_eq:
  "archived_rows e a =
     (if reaches_select e then
        (case write_failure e of
           Some k \<Rightarrow> take k (select_old (cutoff_date e) (arch_db a))
         | None \<Rightarrow> select_old (cutoff_date e) (arch_db a))
      else [])"
  by (auto simp add: archived_rows_def archive_files_after split: option.splits)

lemma set_select_old:
  "set (select_old c d) = {row \<in> set (fatigue_log d). timestamp row < c}"
  by (auto simp: select_old_def)

lemma set_delete_old:
  "set (fatigue_log (delete_old c d)) = {row \<in> set (fatigue_log d). \<not> timestamp row < c}"
  by (auto simp: delete_old_def)

lemma archived_subset_old:
  "set (archived_rows e a) \<subseteq> set (select_old (cutoff_date e) (arch_db a))"
  by (auto simp: archived_rows_eq split: option.splits dest: in_set_takeD)

lemma remaining_when_deleted:
  "fatigue_log (arch_db (archive_and_purge e a)) \<noteq> fatigue_log (arch_db a) \<Longrightarrow>
     archived_rows e a = select_old (cutoff_date e) (arch_db a) \<and>
     arch_db (archive_and_purge e a) = delete_old (cutoff_date e) (arch_db a)"
  by (auto simp: archive_db_after archived_rows_eq split: if_splits)

lemma no_loss:
  "set (archived_rows e a) \<union> set (fatigue_log (arch_db (archive_and_purge e a))) =
     set (fatigue_log (arch_db a))"
proof (cases "fatigue_log (arch_db (archive_and_purge e a)) = fatigue_log (arch_db a)")
  case True
  then show ?thesis
    using archived_subset_old[of e a] by (auto simp: set_select_old)
next
  case False
  from remaining_when_deleted[OF False] show ?thesis
    by (auto simp: set_select_old set_delete_old)
qed

text \<open>
  C4. The rows selected are those with a timestamp strictly before the cutoff. Where
  the run deletes at all, the archive file holding all of these rows has been written
  and closed first; a run that finds nothing old, or whose file cannot be written, or
  whose DELETE does not commit, deletes nothing. The DELETE removes exactly the rows
  with a timestamp strictly before the same cutoff, in one step. A row stamped at or
  after the cutoff stays in the store and is in no file of the run. The rows in the
  files of the run together with the rows left in the store are the rows that were
  in the store before.
\<close>

theorem archive_written_before_purge:
  "select_old (cutoff_date e) (arch_db a) =
     filter (\<lambda>row. timestamp row < cutoff_date e) (fatigue_log (arch_db a)) \<and>
   effects (archive_and_purge e a) =
     effects a @
       (if reaches_select e \<and> select_old (cutoff_date e) (arch_db a) \<noteq> [] then
          (case write_failure e of
             Some k \<Rightarrow> [File_broken (take k (select_old (cutoff_date e) (arch_db a)))]
           | None \<Rightarrow>
               if delete_ok e
               then [File_closed (select_old (cutoff_date e) (arch_db a)),
                     Rows_deleted (select_old (cutoff_date e) (arch_db a))]
               else [File_closed (select_old (cutoff_date e) (arch_db a))])
        else []) \<and>
   fatigue_log (arch_db (archive_and_purge e a)) =
     (if reaches_select e \<and> select_old (cutoff_date e) (arch_db a) \<noteq> [] \<and>
         write_failure e = None \<and> delete_ok e
      then filter (\<lambda>row. \<not> timestamp row < cutoff_date e) (fatigue_log (arch_db a))
      else fatigue_log (arch_db a)) \<and>
   archived_rows e a =
     (if reaches_select e then
        (case write_failure e of
           Some k \<Rightarrow> take k (select_old (cutoff_date e) (arch_db a))
         | None \<Rightarrow> select_old (cutoff_date e) (arch_db a))
      else []) \<and>
   (\<forall>row \<in> set (fatigue_log (arch_db a)).
      \<not> timestamp row < cutoff_date e \<longrightarrow>
        row \<in> set (fatigue_log (arch_db (archive_and_purge e a))) \<and>
        row \<notin> set (archived_rows e a)) \<and>
   set (archived_rows e a) \<union> set (fatigue_log (arch_db (archive_and_purge e a))) =
     set (fatigue_log (arch_db a))"
proof (intro conjI ballI impI)
  show "select_old (cutoff_date e) (arch_db a) =
     filter (\<lambda>row. timestamp row < cutoff_date e) (fatigue_log (arch_db a))"
    by (simp add: select_old_def)
  show "effects (archive_and_purge e a) =
     effects a @
       (if reaches_select e \<and> select_old (cutoff_date e) (arch_db a) \<noteq> [] then
          (case write_failure e of
             Some k \<Rightarrow> [File_broken (take k (select_old (cutoff_date e) (arch_db a)))]
           | None \<Rightarrow>
               if delete_ok e
               then [File_closed (select_old (cutoff_date e) (arch_db a)),
                     Rows_deleted (select_old (cutoff_date e) (arch_db a))]
               else [File_closed (select_old (cutoff_date e) (arch_db a))])
        else [])"
    by (rule archive_effects)
  show "fatigue_log (arch_db (archive_and_purge e a)) =
     (if reaches_select e \<and> select_old (cutoff_date e) (arch_db a) \<noteq> [] \<and>
         write_failure e = None \<and> delete_ok e
      then filter (\<lambda>row. \<not> timestamp row < cutoff_date e) (fatigue_log (arch_db a))
      else fatigue_log (arch_db a))"
    by (simp add: archive_db_after delete_old_def)
  show "archived_rows e a =
     (if reaches_select e then
        (case write_failure e of
           Some k \<Rightarrow> take k (select_old (cutoff_date e) (arch_db a))
         | None \<Rightarrow> select_old (cutoff_date e) (arch_db a))
      else [])"
    by (rule archived_rows_eq)
  show "set (archived_rows e a) \<union> set (fatigue_log (arch_db (archive_and_purge e a))) =
     set (fatigue_log (arch_db a))"
    by (rule no_loss)
next
  fix row
  assume r: "row \<in> set (fatigue_log (arch_db a))" and n: "\<not> timestamp row < cutoff_date e"
  show "row \<notin> set (archived_rows e a)"
    using archived_subset_old[of e a] n by (auto simp: set_select_old)
  then show "row \<in> set (fatigue_log (arch_db (archive_and_purge e a)))"
    using no_loss[of e a] r by blast
qed

text \<open>
  The theorem at scenario 6 with a row more: the row before the cutoff is written to
  the file and then deleted, the row stamped exactly at the cutoff and the later row
  stay; when the file cannot be written, nothing is deleted.
\<close>

theorem archive_written_before_purge_witness:
  "reaches_select scenario_6_env \<and>
   select_old (cutoff_date scenario_6_env) scenario_6_store =
     [\<lparr>log_id = 1, timestamp = ''2024-09-30T08:15:00.250000'', node_id = 1, bin_1_cycles = 5,
       bin_2_cycles = 10, bin_3_cycles = 20, sent_to_cloud = 1\<rparr>] \<and>
   effects (archive_and_purge scenario_6_env (archiver_init scenario_6_store)) =
     [File_closed
        [\<lparr>log_id = 1, timestamp = ''2024-09-30T08:15:00.250000'', node_id = 1,
          bin_1_cycles = 5, bin_2_cycles = 10, bin_3_cycles = 20, sent_to_cloud = 1\<rparr>],
      Rows_deleted
        [\<lparr>log_id = 1, timestamp = ''2024-09-30T08:15:00.250000'', node_id = 1,
          bin_1_cycles = 5, bin_2_cycles = 10, bin_3_cycles = 20, sent_to_cloud = 1\<rparr>]] \<and>
   map log_id (fatigue_log (arch_db (archive_and_purge scenario_6_env
                                        (archiver_init scenario_6_store)))) = [2, 3] \<and>
   map log_id (archived_rows scenario_6_env (archiver_init scenario_6_store)) = [1] \<and>
   \<not> timestamp (fatigue_log scenario_6_store ! 1) < cutoff_date scenario_6_env \<and>
   fatigue_log scenario_6_store ! 1 \<in> set (fatigue_log scenario_6_store) \<and>
   fatigue_log scenario_6_store ! 1 \<in>
     set (fatigue_log (arch_db (archive_and_purge scenario_6_env
                                  (archiver_init scenario_6_store)))) \<and>
   effects (archive_and_purge (scenario_6_env\<lparr>write_failure := Some 0\<rparr>)
              (archiver_init scenario_6_store)) = [File_broken []] \<and>
   arch_db (archive_and_purge (scenario_6_env\<lparr>write_failure := Some 0\<rparr>)
              (archiver_init scenario_6_store)) = scenario_6_store"
  using archive_written_before_purge [of scenario_6_env "archiver_init scenario_6_store"]
        archive_written_before_purge
          [of "scenario_6_env\<lparr>write_failure := Some 0\<rparr>" "archiver_init scenario_6_store"]
  by (simp add: scenario_6_env_def scenario_6_store_def archiver_init_def reaches_select_def
        select_old_def archive_db_after delete_old_def)

section \<open>The ingestors: where the payload is enqueued\<close>

lemma enqueues_when_quiet:
  "\<forall>evt \<in> set evs. \<not> lock_event evt \<Longrightarrow> enqueues_when True True evs"
proof (induction evs)
  case Nil
  show ?case by simp
next
  case (Cons evt evs)
  then show ?case by (cases evt) simp_all
qed


lemma ev_fields [simp]:
  "lock (snd (ev x sc)) = lock (snd sc)"
  "trace (snd (ev x sc)) = trace (snd sc) @ [x]"
  "fst (ev x sc) = fst sc"
  by (simp_all add: ev_def emit_def)

lemma enqueue_lock [simp]: "lock (snd (enqueue msg p sc)) = lock (snd sc)"
  by (simp add: enqueue_def split: option.splits)


lemma radio_setup_lock [simp]: "lock (snd (radio_setup e sc)) = lock (snd sc)"
  by (simp add: radio_setup_def)


lemma arm_rx_lock [simp]: "lock (snd (snd (arm_rx e sc))) = lock (snd sc)"
  by (simp add: arm_rx_def)












section \<open>The egress: when rows are marked sent, and which rows are sent\<close>

lemmas egress_eval =
  forward_data_to_cloud_def http_post_payload_def send_at_command_def at_cmd_def
  http_cleanup_def ser_write_def select_unsent_def mark_sent_def comm_logging_def
  comms_with_def http_replies_def store_10_11_12_def Let_def

text \<open>
  C1 at a failing input. The modem ends the POST with \<open>+HTTPACTION: 1,401,200\<close>: HTTP
  status 401 and a response body of 200 bytes. The test \<open>"1,200" in response\<close> finds
  its text in \<open>1,401,200\<close>, \<open>_http_post_payload\<close> returns \<open>True\<close>, and the three rows
  of the batch are marked sent although the upload was refused. With status 404 the
  rows stay unsent and with status 200 they are marked sent, as the claim says.
\<close>

theorem rows_marked_sent_on_status_401:
  "fst (http_post_payload ''[]''
          (Some (Some \<lparr>replies = http_replies ''+HTTPACTION: 1,401,200'', written = []\<rparr>))) =
     Inr True \<and>
   map sent_to_cloud
     (fatigue_log (comm_db (snd (forward_data_to_cloud
        (comms_with (http_replies ''+HTTPACTION: 1,401,200'') store_10_11_12))))) = [1, 1, 1] \<and>
   map sent_to_cloud
     (fatigue_log (comm_db (snd (forward_data_to_cloud
        (comms_with (http_replies ''+HTTPACTION: 1,404,0'') store_10_11_12))))) = [0, 0, 0] \<and>
   map sent_to_cloud
     (fatigue_log (comm_db (snd (forward_data_to_cloud
        (comms_with (http_replies ''+HTTPACTION: 1,200,0'') store_10_11_12))))) = [1, 1, 1]"
  by (simp add: egress_eval)








lemma select_unsent_of_ordered_table:
  assumes "sorted_wrt (<) (map log_id (fatigue_log d))"
  shows "select_unsent d = take 50 (filter (\<lambda>row. sent_to_cloud row = 0) (fatigue_log d))"
proof -
  from assms have "sorted (map log_id (fatigue_log d))"
    by (simp add: strict_sorted_iff)
  then have "sort_key log_id (fatigue_log d) = fatigue_log d"
    by (rule sort_key_id_if_sorted)
  then show ?thesis by (simp add: select_unsent_def)
qed

text \<open>
  The tables the code builds are in ascending \<open>log_id\<close> as they stand: the empty
  table is, and the insert of the processor (a new row with the next
  \<open>AUTOINCREMENT\<close> id), the UPDATE of the egress and the DELETE of the archiver keep
  it so.
\<close>

lemma id_ordered_empty_store: "id_ordered empty_store"
  by (simp add: id_ordered_def empty_store_def)

lemma id_ordered_insert_fatigue_row:
  assumes "id_ordered d"
  shows "id_ordered (insert_fatigue_row ts node bin1 bin2 bin3 d)"
proof -
  from assms have s: "sorted_wrt (<) (map log_id (fatigue_log d))"
    and b: "\<forall>row \<in> set (fatigue_log d). log_id row \<le> fatigue_seq d"
    by (simp_all add: id_ordered_def list_all_iff)
  from b have "\<forall>i \<in> set (map log_id (fatigue_log d)). i < Suc (fatigue_seq d)"
    by auto
  with s have "sorted_wrt (<) (map log_id (fatigue_log d) @ [Suc (fatigue_seq d)])"
    by (simp add: sorted_wrt_append)
  moreover from b have "\<forall>row \<in> set (fatigue_log d). log_id row \<le> Suc (fatigue_seq d)"
    by auto
  ultimately show ?thesis
    by (simp add: id_ordered_def insert_fatigue_row_def list_all_iff)
qed

lemma id_ordered_insert_environment_row:
  "id_ordered d \<Longrightarrow> id_ordered (insert_environment_row ts node temperature humidity d)"
  by (simp add: id_ordered_def insert_environment_row_def)

lemma id_ordered_mark_sent: "id_ordered d \<Longrightarrow> id_ordered (mark_sent ids d)"
  by (auto simp: id_ordered_def mark_sent_def list_all_iff comp_def if_distrib cong: if_cong)

lemma id_ordered_delete_old: "id_ordered d \<Longrightarrow> id_ordered (delete_old cutoff d)"
proof -
  assume a: "id_ordered d"
  then have "sorted_wrt (\<lambda>x y. log_id x < log_id y) (fatigue_log d)"
    by (simp add: id_ordered_def sorted_wrt_map)
  then have "sorted_wrt (\<lambda>x y. log_id x < log_id y)
               (filter (\<lambda>row. \<not> timestamp row < cutoff) (fatigue_log d))"
    by (rule sorted_wrt_filter)
  with a show ?thesis
    by (simp add: id_ordered_def delete_old_def sorted_wrt_map list_all_iff)
qed

lemma id_ordered_scan:
  "id_ordered d \<Longrightarrow>
     select_unsent d = take 50 (filter (\<lambda>row. sent_to_cloud row = 0) (fatigue_log d))"
  by (simp add: id_ordered_def select_unsent_of_ordered_table)












section \<open>Two more properties of the egress and the processor\<close>

lemma forward_db:
  "comm_db (snd (forward_data_to_cloud c)) =
     (if select_unsent (comm_db c) \<noteq> [] \<and>
         fst (http_post_payload (json_dumps (select_unsent (comm_db c))) (sim_manager c)) =
           Inr True
      then mark_sent (map log_id (select_unsent (comm_db c))) (comm_db c)
      else comm_db c)"
  by (auto simp add: forward_data_to_cloud_def comm_logging_def Let_def
           split: prod.splits sum.splits)

lemma mark_sent_ids: "map log_id (fatigue_log (mark_sent ids d)) = map log_id (fatigue_log d)"
  by (simp add: mark_sent_def comp_def)

lemma mark_sent_others:
  "row \<in> set (fatigue_log d) \<Longrightarrow> log_id row \<notin> set ids \<Longrightarrow>
     row \<in> set (fatigue_log (mark_sent ids d))"
  by (force simp: mark_sent_def)

lemma mark_sent_batch:
  "row \<in> set (fatigue_log (mark_sent ids d)) \<Longrightarrow> log_id row \<in> set ids \<Longrightarrow>
     sent_to_cloud row = 1"
  by (auto simp: mark_sent_def split: if_splits)

text \<open>
  \<open>forward_data_to_cloud\<close> changes the store only when \<open>_http_post_payload\<close> returns
  \<open>True\<close> for the batch, and then by the one UPDATE: the rows whose ids were in the
  batch get \<open>sent_to_cloud = 1\<close>, every other row stays as it was, and no row is added
  or removed.
\<close>

theorem upload_marks_exactly_the_batch:
  "comm_db (snd (forward_data_to_cloud c)) =
     (if select_unsent (comm_db c) \<noteq> [] \<and>
         fst (http_post_payload (json_dumps (select_unsent (comm_db c))) (sim_manager c)) =
           Inr True
      then mark_sent (map log_id (select_unsent (comm_db c))) (comm_db c)
      else comm_db c) \<and>
   map log_id (fatigue_log (mark_sent ids d)) = map log_id (fatigue_log d) \<and>
   (\<forall>row \<in> set (fatigue_log d).
      log_id row \<notin> set ids \<longrightarrow> row \<in> set (fatigue_log (mark_sent ids d))) \<and>
   (\<forall>row \<in> set (fatigue_log (mark_sent ids d)).
      log_id row \<in> set ids \<longrightarrow> sent_to_cloud row = 1)"
  using forward_db[of c] mark_sent_ids[of ids d] mark_sent_others[of _ d ids]
        mark_sent_batch[of _ ids d]
  by blast

text \<open>
  The theorem at the store of scenario 4: marking rows 10 and 12 leaves row 11 unsent,
  and an upload answered with status 404 leaves the store as it was.
\<close>

theorem upload_marks_exactly_the_batch_witness:
  "map log_id (fatigue_log (mark_sent [10, 12] store_10_11_12)) = [10, 11, 12] \<and>
   map sent_to_cloud (fatigue_log (mark_sent [10, 12] store_10_11_12)) = [1, 0, 1] \<and>
   fatigue_log store_10_11_12 ! 1 \<in> set (fatigue_log store_10_11_12) \<and>
   log_id (fatigue_log store_10_11_12 ! 1) \<notin> set [10, 12] \<and>
   fatigue_log store_10_11_12 ! 1 \<in> set (fatigue_log (mark_sent [10, 12] store_10_11_12)) \<and>
   comm_db (snd (forward_data_to_cloud
                   (comms_with (http_replies ''+HTTPACTION: 1,404,0'') store_10_11_12))) =
     store_10_11_12"
  using upload_marks_exactly_the_batch
          [of "comms_with (http_replies ''+HTTPACTION: 1,404,0'') store_10_11_12" "[10, 12]"
              store_10_11_12]
  by (simp add: egress_eval)

text \<open>
  A step of the processor's loop takes an item from the low-priority queue only at the
  test of the low loop, and takes the head of that queue; the loop comes to that test
  only from the test of the high loop, when the high-priority queue was found empty,
  or from the low loop itself.
\<close>

theorem low_item_only_after_high_queue_empty:
  "(served (run_step rules e t) = served t @ [(Low, p)] \<longrightarrow>
      pc t = Low_test \<and> items (low_prio_q t) = p # items (low_prio_q (run_step rules e t))) \<and>
   (pc (run_step rules e t) = Low_test \<longrightarrow>
      pc t = Low_test \<or> (pc t = High_test \<and> q_empty (high_prio_q t)))"
  by (auto simp: run_step_def after_item_def q_empty_def get_nowait_def
           split: pc.splits option.splits prod.splits if_splits list.splits)

text \<open>
  The theorem at the start of a pass with both queues empty, and with one scout packet
  queued at the test of the low loop.
\<close>

theorem low_item_only_after_high_queue_empty_witness:
  "pc (run_step [] env_ok (thread_init\<lparr>pc := High_test\<rparr>)) = Low_test \<and>
   q_empty (high_prio_q (thread_init\<lparr>pc := High_test\<rparr>)) \<and>
   served (run_step [] env_ok
             (thread_init\<lparr>pc := Low_test,
                low_prio_q := \<lparr>items = [scenario_3_packet], maxsize = 500\<rparr>\<rparr>)) =
     [(Low, scenario_3_packet)]"
  using low_item_only_after_high_queue_empty
          [of "[]" env_ok "thread_init\<lparr>pc := High_test\<rparr>" scenario_3_packet]
        low_item_only_after_high_queue_empty
          [of "[]" env_ok
              "thread_init\<lparr>pc := Low_test,
                 low_prio_q := \<lparr>items = [scenario_3_packet], maxsize = 500\<rparr>\<rparr>"
              scenario_3_packet]
  by (simp add: run_step_def after_item_def q_empty_def get_nowait_def thread_init_def
        processor_init_def empty_store_def env_ok_def scenario_3_packet_def
        process_nrf_packet_def struct_unpack_def calcsize_def nrf_format_def
        execute_and_commit_def logging_def Let_def insert_environment_row_def)

end
